theory Spec2Isabelle
  imports Main "HOL-Library.Monad_Syntax" "HOL-Library.AList" "HOL-Library.Sublist"
begin

section \<open>Parsed JSON documents\<close>

text \<open>
  What \<^verbatim>\<open>json.loads\<close> hands to the program: a tree of Python values. A \<^verbatim>\<open>dict\<close>
  is an association list read with \<open>map_of\<close> and written with \<open>AList.update\<close>, which
  keeps the position of a key that is already there and appends a new one, as a Python
  dict does. No field of the schema is numeric, so of a number only its being a number
  matters.
\<close>

datatype json =
    JNull
  | JBool bool
  | JNum int
  | JStr string
  | JArr "json list"
  | JObj "(string \<times> json) list"

type_synonym dict = "(string \<times> json) list"

section \<open>models.py: the schema\<close>

text \<open>\<^verbatim>\<open>Difficulty = Literal["easy", "medium", "hard"]\<close>\<close>

definition Difficulty :: "string list" where
  "Difficulty = [''easy'', ''medium'', ''hard'']"

record QuizItem =
  question :: string
  options :: "string list"
  answer :: string
  difficulty :: string
  explanation :: string

record KeyEntities =
  people :: "string list"
  organizations :: "string list"
  locations :: "string list"

record QuizOutput =
  url :: string
  title :: string
  summary :: string
  key_entities :: KeyEntities
  sections :: "string list"
  quiz :: "QuizItem list"
  related_topics :: "string list"

text \<open>
  The field validators of pydantic on values that come from \<^verbatim>\<open>json.loads\<close>: a
  \<^verbatim>\<open>str\<close> field takes a string and nothing else, a \<^verbatim>\<open>List[str]\<close> field a list
  of strings, a \<^verbatim>\<open>Literal\<close> field one of its strings, a model field a dict. A
  field with no default is required; one with a default takes the default when its key
  is missing. Keys the model does not declare are ignored. \<open>None\<close> is the
  \<^verbatim>\<open>ValidationError\<close>.
\<close>

fun validate_str :: "json \<Rightarrow> string option" where
  "validate_str (JStr s) = Some s"
| "validate_str _ = None"

fun validate_list :: "(json \<Rightarrow> 'a option) \<Rightarrow> json \<Rightarrow> 'a list option" where
  "validate_list v (JArr xs) = those (map v xs)"
| "validate_list v _ = None"

definition validate_literal :: "string list \<Rightarrow> json \<Rightarrow> string option" where
  "validate_literal allowed j =
     (case j of JStr s \<Rightarrow> if s \<in> set allowed then Some s else None | _ \<Rightarrow> None)"

definition required :: "dict \<Rightarrow> string \<Rightarrow> (json \<Rightarrow> 'a option) \<Rightarrow> 'a option" where
  "required d k v = (case map_of d k of None \<Rightarrow> None | Some x \<Rightarrow> v x)"

definition with_default :: "dict \<Rightarrow> string \<Rightarrow> (json \<Rightarrow> 'a option) \<Rightarrow> 'a \<Rightarrow> 'a option" where
  "with_default d k v dflt = (case map_of d k of None \<Rightarrow> Some dflt | Some x \<Rightarrow> v x)"

text \<open>\<^verbatim>\<open>options: List[str] = Field(min_length=4, max_length=4)\<close>\<close>

definition validate_options :: "json \<Rightarrow> string list option" where
  "validate_options j =
     (case validate_list validate_str j of
        None \<Rightarrow> None
      | Some xs \<Rightarrow> if 4 \<le> length xs \<and> length xs \<le> 4 then Some xs else None)"

fun QuizItem_model_validate :: "json \<Rightarrow> QuizItem option" where
  "QuizItem_model_validate (JObj d) =
     do {
       q \<leftarrow> required d ''question'' validate_str;
       os \<leftarrow> required d ''options'' validate_options;
       a \<leftarrow> required d ''answer'' validate_str;
       l \<leftarrow> required d ''difficulty'' (validate_literal Difficulty);
       e \<leftarrow> required d ''explanation'' validate_str;
       Some \<lparr>question = q, options = os, answer = a, difficulty = l, explanation = e\<rparr>
     }"
| "QuizItem_model_validate _ = None"

fun KeyEntities_model_validate :: "json \<Rightarrow> KeyEntities option" where
  "KeyEntities_model_validate (JObj d) =
     do {
       p \<leftarrow> with_default d ''people'' (validate_list validate_str) [];
       g \<leftarrow> with_default d ''organizations'' (validate_list validate_str) [];
       l \<leftarrow> with_default d ''locations'' (validate_list validate_str) [];
       Some \<lparr>people = p, organizations = g, locations = l\<rparr>
     }"
| "KeyEntities_model_validate _ = None"

fun QuizOutput_model_validate :: "json \<Rightarrow> QuizOutput option" where
  "QuizOutput_model_validate (JObj d) =
     do {
       u \<leftarrow> required d ''url'' validate_str;
       t \<leftarrow> required d ''title'' validate_str;
       s \<leftarrow> required d ''summary'' validate_str;
       k \<leftarrow> required d ''key_entities'' KeyEntities_model_validate;
       ss \<leftarrow> required d ''sections'' (validate_list validate_str);
       qs \<leftarrow> required d ''quiz'' (validate_list QuizItem_model_validate);
       r \<leftarrow> required d ''related_topics'' (validate_list validate_str);
       Some \<lparr>url = u, title = t, summary = s, key_entities = k, sections = ss,
             quiz = qs, related_topics = r\<rparr>
     }"
| "QuizOutput_model_validate _ = None"

section \<open>Python strings\<close>

text \<open>
  A Python \<^verbatim>\<open>str\<close> is modelled as a \<open>string\<close>; its characters are the code
  points below 256. \<open>whitespace\<close> lists those of them that \<^verbatim>\<open>str.isspace\<close>
  accepts, which are the characters \<^verbatim>\<open>strip()\<close> removes.
\<close>

definition whitespace :: "char list" where
  "whitespace = [CHR 0x09, CHR 0x0A, CHR 0x0B, CHR 0x0C, CHR 0x0D, CHR 0x1C, CHR 0x1D,
                 CHR 0x1E, CHR 0x1F, CHR 0x20, CHR 0x85, CHR 0xA0]"

definition lstrip_chars :: "char list \<Rightarrow> string \<Rightarrow> string" where
  "lstrip_chars cs s = dropWhile (\<lambda>c. c \<in> set cs) s"

definition rstrip_chars :: "char list \<Rightarrow> string \<Rightarrow> string" where
  "rstrip_chars cs s = rev (dropWhile (\<lambda>c. c \<in> set cs) (rev s))"

definition strip_chars :: "char list \<Rightarrow> string \<Rightarrow> string" where
  "strip_chars cs s = rstrip_chars cs (lstrip_chars cs s)"

definition lstrip :: "string \<Rightarrow> string" where
  "lstrip s = lstrip_chars whitespace s"

definition strip :: "string \<Rightarrow> string" where
  "strip s = strip_chars whitespace s"

definition startswith :: "string \<Rightarrow> string \<Rightarrow> bool" where
  "startswith s p = (take (length p) s = p)"

definition endswith :: "string \<Rightarrow> string \<Rightarrow> bool" where
  "endswith s p = (length p \<le> length s \<and> drop (length s - length p) s = p)"

text \<open>\<^verbatim>\<open>s.find(c)\<close> and \<^verbatim>\<open>s.rfind(c)\<close> for a one-character \<open>c\<close>: an index, or -1.\<close>

fun str_find :: "string \<Rightarrow> char \<Rightarrow> int" where
  "str_find [] c = - 1"
| "str_find (x # xs) c =
     (if x = c then 0 else (let i = str_find xs c in if i = - 1 then - 1 else i + 1))"

definition str_rfind :: "string \<Rightarrow> char \<Rightarrow> int" where
  "str_rfind s c =
     (let i = str_find (rev s) c in if i = - 1 then - 1 else int (length s) - 1 - i)"

text \<open>\<^verbatim>\<open>s[i:j]\<close> for \<open>0 \<le> i\<close> and \<open>0 \<le> j\<close>, the only way the program slices.\<close>

definition slice :: "string \<Rightarrow> int \<Rightarrow> int \<Rightarrow> string" where
  "slice s i j = take (nat (j - i)) (drop (nat i) s)"

text \<open>\<^verbatim>\<open>sub in s\<close>\<close>

fun contains :: "string \<Rightarrow> string \<Rightarrow> bool" where
  "contains [] sub = (sub = [])"
| "contains (x # xs) sub = (startswith (x # xs) sub \<or> contains xs sub)"

text \<open>\<^verbatim>\<open>s.split("/")[-1]\<close>: what follows the last slash, or all of \<open>s\<close>.\<close>

definition last_segment :: "string \<Rightarrow> string" where
  "last_segment s = rev (takeWhile (\<lambda>c. c \<noteq> CHR ''/'') (rev s))"

text \<open>
  \<^verbatim>\<open>s.lower()\<close>: the letters A to Z, and the capital letters of the upper half of
  Latin-1 (all of 0xC0 to 0xDE but the multiplication sign 0xD7), move up by 32.
\<close>

definition lower_char :: "char \<Rightarrow> char" where
  "lower_char c =
     (let n = (of_char c :: nat) in
      if (65 \<le> n \<and> n \<le> 90) \<or> (192 \<le> n \<and> n \<le> 222 \<and> n \<noteq> 215)
      then char_of (n + 32) else c)"

definition lower :: "string \<Rightarrow> string" where
  "lower s = map lower_char s"

text \<open>
  \<^verbatim>\<open>s.replace(old, new)\<close>: every occurrence of \<open>old\<close>, found from the left and
  not overlapping. With an empty \<open>old\<close> Python puts \<open>new\<close> before every character
  and at the end.
\<close>

function replace :: "string \<Rightarrow> string \<Rightarrow> string \<Rightarrow> string" where
  "replace s old new =
     (if old = [] then concat (map (\<lambda>c. new @ [c]) s) @ new
      else if s = [] then []
      else if startswith s old then new @ replace (drop (length old) s) old new
      else hd s # replace (tl s) old new)"
  by pat_completeness auto
termination
  by (relation "measure (\<lambda>(s, old, new). length s)") auto

declare replace.simps [simp del]

text \<open>Truthiness of a value, as \<^verbatim>\<open>or\<close> and \<^verbatim>\<open>if\<close> test it.\<close>

fun truthy :: "json \<Rightarrow> bool" where
  "truthy JNull = False"
| "truthy (JBool b) = b"
| "truthy (JNum n) = (n \<noteq> 0)"
| "truthy (JStr s) = (s \<noteq> [])"
| "truthy (JArr xs) = (xs \<noteq> [])"
| "truthy (JObj d) = (d \<noteq> [])"

section \<open>llm\_quiz\_generator.py\<close>

text \<open>
  What the program reaches outside itself for: the generative backend (its list of
  models, and \<^verbatim>\<open>generate_content\<close>, whose \<open>Inl\<close> is an exception of the call or
  of reading the response's text), the environment variable \<^verbatim>\<open>GEMINI_MODEL\<close> and
  the parser \<^verbatim>\<open>json.loads\<close>, whose \<open>None\<close> is its \<^verbatim>\<open>JSONDecodeError\<close>.
\<close>

record model =
  name :: string
  supported_generation_methods :: "string list"

record backend =
  list_models :: "string + model list"
  GEMINI_MODEL :: "string option"
  generate_content :: "string \<Rightarrow> string \<Rightarrow> string + string"
  json_loads :: "string \<Rightarrow> json option"

definition nl :: string where
  "nl = [CHR 0x0A]"

text \<open>\<^verbatim>\<open>PROMPT_TEMPLATE.format(url=u, title=t, article_text=article_text)\<close>\<close>

definition PROMPT_TEMPLATE_format :: "string \<Rightarrow> string \<Rightarrow> string \<Rightarrow> string" where
  "PROMPT_TEMPLATE_format u t article_text = concat [
       ''You are an expert educational content generator specializing in creating high-quality quizzes from Wikipedia articles.'', nl,
       nl,
       ''Your task is to analyze the provided Wikipedia article and generate a comprehensive quiz package.'', nl,
       nl,
       ''CRITICAL RULES:'', nl,
       ''1. Use ONLY facts explicitly stated in the article text - NO external knowledge or assumptions'', nl,
       ''2. Questions must be directly answerable from the article content'', nl,
       ''3. All four options must be plausible to avoid obvious answers'', nl,
       ''4. Explanations should reference specific sections or context from the article'', nl,
       ''5. Distribute difficulty levels: ~40% easy, ~40% medium, ~20% hard'', nl,
       ''6. Extract entities that are actually mentioned in the text'', nl,
       ''7. Return VALID JSON matching the schema EXACTLY (no markdown, no comments, no extra keys)'', nl,
       nl,
       ''TASKS:'', nl,
       ''1. **Summary**: Write a 2-3 sentence concise summary capturing the main topic and key points'', nl,
       ''2. **Key Entities**: Extract entities that appear prominently in the article:'', nl,
       ''   - people: Named individuals mentioned'', nl,
       ''   - organizations: Companies, institutions, groups'', nl,
       ''   - locations: Cities, countries, regions'', nl,
       ''3. **Sections**: List 4-6 main section headings or topic areas covered'', nl,
       ''4. **Quiz**: Generate 5-10 multiple-choice questions:'', nl,
       ''   - Each question must have EXACTLY 4 options'', nl,
       ''   - One correct answer that matches one of the options exactly'', nl,
       ''   - Difficulty: easy (basic facts), medium (requires understanding), hard (detailed knowledge)'', nl,
       ''   - Explanation: Brief reason citing article section or context'', nl,
       ''5. **Related Topics**: Suggest 3-5 related Wikipedia topics for further reading'', nl,
       nl,
       ''JSON SCHEMA (return ONLY this, nothing else):'', nl,
       ''{'', nl,
       ''  \"url\": \"'', u, ''\",'', nl,
       ''  \"title\": \"'', t, ''\",'', nl,
       ''  \"summary\": \"string (2-3 sentences)\",'', nl,
       ''  \"key_entities\": {'', nl,
       ''    \"people\": [\"string\"],'', nl,
       ''    \"organizations\": [\"string\"],'', nl,
       ''    \"locations\": [\"string\"]'', nl,
       ''  },'', nl,
       ''  \"sections\": [\"string\"],'', nl,
       ''  \"quiz\": ['', nl,
       ''    {'', nl,
       ''      \"question\": \"string\",'', nl,
       ''      \"options\": [\"string\", \"string\", \"string\", \"string\"],'', nl,
       ''      \"answer\": \"string (must match one option exactly)\",'', nl,
       ''      \"difficulty\": \"easy\" | \"medium\" | \"hard\",'', nl,
       ''      \"explanation\": \"string (reference article section/context)\"'', nl,
       ''    }'', nl,
       ''  ],'', nl,
       ''  \"related_topics\": [\"string\"]'', nl,
       ''}'', nl,
       nl,
       ''ARTICLE DATA:'', nl,
       ''URL: '', u, nl,
       ''TITLE: '', t, nl,
       nl,
       ''ARTICLE TEXT:'', nl,
       article_text, nl,
       nl,
       ''Generate the quiz now. Return ONLY valid JSON, no other text.'', nl]"

datatype exn =
    RuntimeError string
  | BackendError string
  | JSONDecodeError
  | ValidationError
  | AttributeError

text \<open>The second component of a failed \<^verbatim>\<open>_try_once\<close>: its message.\<close>

datatype diag = Empty_model_response | Raised exn

definition preferences :: "string list" where
  "preferences = [''gemini-1.5-flash'', ''gemini-1.5-flash-8b'']"

definition pick_model :: "backend \<Rightarrow> exn + string" where
  "pick_model b =
     (case list_models b of
        Inl e \<Rightarrow> Inl (BackendError e)
      | Inr models \<Rightarrow>
          let gen_models =
                filter (\<lambda>m. ''generateContent'' \<in> set (supported_generation_methods m)) models
          in
          if gen_models = [] then
            Inl (RuntimeError
                   ''No Gemini models with generateContent are available to this API key.'')
          else
            let names = map name gen_models;
                simple = map last_segment names;
                desired = GEMINI_MODEL b
            in
            if desired \<noteq> None \<and> the desired \<noteq> [] \<and> the desired \<in> set simple
              then Inr (''models/'' @ the desired)
            else if desired \<noteq> None \<and> the desired \<noteq> []
                    \<and> startswith (the desired) ''models/''
                    \<and> last_segment (the desired) \<in> set simple
              then Inr (the desired)
            else
              (case find (\<lambda>p. p \<in> set simple) preferences of
                 Some p \<Rightarrow> Inr (''models/'' @ p)
               | None \<Rightarrow>
                   (case find (\<lambda>s. contains s ''flash'') simple of
                      Some s \<Rightarrow> Inr (''models/'' @ s)
                    | None \<Rightarrow> Inr (hd names))))"

definition clean_json_text :: "string \<Rightarrow> string" where
  "clean_json_text raw =
     (let text = strip raw in
      if text = [] then text
      else
        let text =
              (if startswith text [CHR 0x60, CHR 0x60, CHR 0x60] then
                 (let text = strip_chars [CHR 0x60] (strip text) in
                  if startswith text ''json'' then lstrip (drop 4 text) else text)
               else text)
        in
        if text \<noteq> [] \<and> \<not> (startswith (strip text) ''{'' \<and> endswith (strip text) ''}'') then
          (let start = str_find text (CHR ''{'');
               stop = str_rfind text (CHR ''}'')
           in if start \<noteq> - 1 \<and> stop \<noteq> - 1 \<and> stop > start
              then slice text start (stop + 1) else text)
        else text)"

text \<open>
  The loop of \<^verbatim>\<open>_try_once\<close> over \<^verbatim>\<open>data.get("quiz", [])\<close>. \<open>None\<close> is the
  exception of an item that is no dict, or of a value that cannot be looped over; a
  string or a dict loops over its characters or keys, which are no dicts.
\<close>

fun lower_difficulty :: "json \<Rightarrow> json option" where
  "lower_difficulty (JObj q) =
     Some (JObj (case map_of q ''difficulty'' of
                   Some (JStr s) \<Rightarrow> AList.update ''difficulty'' (JStr (lower s)) q
                 | _ \<Rightarrow> q))"
| "lower_difficulty _ = None"

definition lower_difficulties :: "dict \<Rightarrow> dict option" where
  "lower_difficulties data =
     (case map_of data ''quiz'' of
        None \<Rightarrow> Some data
      | Some (JArr qs) \<Rightarrow>
          (case those (map lower_difficulty qs) of
             None \<Rightarrow> None
           | Some qs' \<Rightarrow> Some (AList.update ''quiz'' (JArr qs') data))
      | Some (JStr s) \<Rightarrow> if s = [] then Some data else None
      | Some (JObj kv) \<Rightarrow> if kv = [] then Some data else None
      | Some _ \<Rightarrow> None)"

definition try_once :: "backend \<Rightarrow> string \<Rightarrow> string \<Rightarrow> diag + dict" where
  "try_once b model_name prompt =
     (case generate_content b model_name prompt of
        Inl e \<Rightarrow> Inl (Raised (BackendError e))
      | Inr resp \<Rightarrow>
          let text = clean_json_text resp in
          if text = [] then Inl Empty_model_response
          else
            (case json_loads b text of
               None \<Rightarrow> Inl (Raised JSONDecodeError)
             | Some data \<Rightarrow>
                 (case QuizOutput_model_validate data of
                    None \<Rightarrow> Inl (Raised ValidationError)
                  | Some _ \<Rightarrow>
                      (case data of
                         JObj d \<Rightarrow>
                           (case lower_difficulties d of
                              None \<Rightarrow> Inl (Raised AttributeError)
                            | Some d' \<Rightarrow>
                                (case QuizOutput_model_validate (JObj d') of
                                   None \<Rightarrow> Inl (Raised ValidationError)
                                 | Some _ \<Rightarrow> Inr d'))
                       | _ \<Rightarrow> Inl (Raised AttributeError)))))"

definition REMINDER :: string where
  "REMINDER = nl @ nl @
     ''REMINDER: Return ONLY pure JSON that exactly matches the schema. No markdown.''"

text \<open>
  \<^verbatim>\<open>result["url"] = url; result["title"] = result.get("title") or title\<close>
\<close>

definition fill_in :: "string \<Rightarrow> string \<Rightarrow> dict \<Rightarrow> dict" where
  "fill_in u t result =
     (let result = AList.update ''url'' (JStr u) result in
      AList.update ''title''
        (case map_of result ''title'' of
           Some v \<Rightarrow> if truthy v then v else JStr t
         | None \<Rightarrow> JStr t)
        result)"

text \<open>
  \<open>Inl\<close> is the exception \<^verbatim>\<open>generate_quiz\<close> raises: that of \<^verbatim>\<open>_pick_model\<close>, or
  its own \<^verbatim>\<open>RuntimeError\<close>, kept here as the model's name and the last message.
\<close>

datatype synth_error = Pick_failed exn | Model_failed string diag

definition generate_quiz :: "backend \<Rightarrow> string \<Rightarrow> string \<Rightarrow> string \<Rightarrow> synth_error + dict" where
  "generate_quiz b u t article_text =
     (let article_text = take 18000 article_text;
          prompt = PROMPT_TEMPLATE_format u t article_text
      in
      case pick_model b of
        Inl e \<Rightarrow> Inl (Pick_failed e)
      | Inr model_name \<Rightarrow>
          (case try_once b model_name prompt of
             Inr result \<Rightarrow> Inr (fill_in u t result)
           | Inl result \<Rightarrow>
               let nudge_prompt = prompt @ REMINDER in
               (case try_once b model_name nudge_prompt of
                  Inr result2 \<Rightarrow> Inr (fill_in u t result2)
                | Inl result2 \<Rightarrow> Inl (Model_failed model_name result2))))"

section \<open>scraper.py\<close>

type_synonym headers = "(string \<times> string) list"

definition DESKTOP_HEADERS :: headers where
  "DESKTOP_HEADERS =
     [(''User-Agent'',
       ''Mozilla/5.0 (Macintosh; Intel Mac OS X 10_15_7) '' @
       ''AppleWebKit/537.36 (KHTML, like Gecko) '' @
       ''Chrome/124.0.0.0 Safari/537.36''),
      (''Accept'', ''text/html,application/xhtml+xml,application/xml;q=0.9,*/*;q=0.8''),
      (''Accept-Language'', ''en-US,en;q=0.9'')]"

definition MOBILE_HEADERS :: headers where
  "MOBILE_HEADERS =
     AList.update ''User-Agent''
       (''Mozilla/5.0 (iPhone; CPU iPhone OS 16_0 like Mac OS X) '' @
        ''AppleWebKit/605.1.15 (KHTML, like Gecko) Version/16.0 '' @
        ''Mobile/15E148 Safari/604.1'')
       DESKTOP_HEADERS"

text \<open>
  The article source: \<^verbatim>\<open>requests.get(url, headers=headers, timeout=20,
  allow_redirects=True)\<close> answers a status and a body, or raises an exception of the
  transport (a timeout, a refused connection). \<open>extract_page\<close> is \<^verbatim>\<open>_extract\<close>, the
  title and the text that BeautifulSoup finds in a page.
\<close>

record web =
  requests_get :: "string \<Rightarrow> headers \<Rightarrow> string + nat \<times> string"
  extract_page :: "string \<Rightarrow> string \<times> string"

datatype fetch_error = HTTPError "nat option" | RequestException string

type_synonym request_log = "(string \<times> headers) list"

text \<open>
  \<^verbatim>\<open>_fetch\<close>, with the log of the requests sent so far.
  \<^verbatim>\<open>raise_for_status\<close> raises an \<^verbatim>\<open>HTTPError\<close> that carries the response
  when the status is a 4xx or a 5xx.
\<close>

definition fetch ::
  "web \<Rightarrow> request_log \<Rightarrow> string \<Rightarrow> headers \<Rightarrow> request_log \<times> (fetch_error + string)" where
  "fetch w log u h =
     (log @ [(u, h)],
      case requests_get w u h of
        Inl e \<Rightarrow> Inl (RequestException e)
      | Inr (status, body) \<Rightarrow>
          if 400 \<le> status \<and> status < 600 then Inl (HTTPError (Some status)) else Inr body)"

definition scrape_wikipedia ::
  "web \<Rightarrow> request_log \<Rightarrow> string
     \<Rightarrow> request_log \<times> (fetch_error + string \<times> string \<times> string)" where
  "scrape_wikipedia w log u =
     (case fetch w log u DESKTOP_HEADERS of
        (log1, Inr html) \<Rightarrow>
          (log1, Inr (fst (extract_page w html), snd (extract_page w html), html))
      | (log1, Inl (HTTPError response)) \<Rightarrow>
          let status = (case response of Some s \<Rightarrow> s | None \<Rightarrow> 0) in
          if status = 403 \<or> status = 429 then
            let mobile_url = replace u ''https://en.wikipedia.org'' ''https://m.wikipedia.org''
            in
            (case fetch w log1 mobile_url MOBILE_HEADERS of
               (log2, Inr html) \<Rightarrow>
                 (log2, Inr (fst (extract_page w html), snd (extract_page w html), html))
             | (log2, Inl e) \<Rightarrow> (log2, Inl e))
          else (log1, Inl (HTTPError response))
      | (log1, Inl e) \<Rightarrow> (log1, Inl e))"

section \<open>database.py and cache\_manager.py\<close>

record datetime =
  year :: nat
  month :: nat
  day :: nat
  hour :: nat
  minute :: nat
  second :: nat
  microsecond :: nat

text \<open>\<open>pad w n\<close> is \<open>n\<close> in \<open>w\<close> decimal digits; a field of a date fits its width.\<close>

fun pad :: "nat \<Rightarrow> nat \<Rightarrow> string" where
  "pad 0 n = []"
| "pad (Suc w) n = pad w (n div 10) @ [char_of (48 + n mod 10)]"

definition isoformat :: "datetime \<Rightarrow> string" where
  "isoformat d =
     pad 4 (year d) @ ''-'' @ pad 2 (month d) @ ''-'' @ pad 2 (day d) @ ''T'' @
     pad 2 (hour d) @ '':'' @ pad 2 (minute d) @ '':'' @ pad 2 (second d) @
     (if microsecond d = 0 then [] else ''.'' @ pad 6 (microsecond d))"

text \<open>
  A row of the table \<^verbatim>\<open>quizzes\<close>. The column \<^verbatim>\<open>full_quiz_data\<close> holds the
  text \<^verbatim>\<open>json.dumps\<close> makes of a dict, and is only ever read back with
  \<^verbatim>\<open>json.loads\<close>: the row keeps the dict.
\<close>

record Quiz =
  Quiz_id :: nat
  Quiz_url :: string
  Quiz_title :: string
  date_generated :: datetime
  scraped_content :: "string option"
  raw_html :: "string option"
  full_quiz_data :: dict

record database =
  rows :: "Quiz list"
  next_id :: nat

datatype db_error = IntegrityError

text \<open>
  \<^verbatim>\<open>db.add(record); db.commit(); db.refresh(record)\<close>: the column \<^verbatim>\<open>url\<close> is
  declared \<^verbatim>\<open>unique=True\<close>, so the commit fails when a row has the url; otherwise the
  row gets the next id and \<^verbatim>\<open>datetime.utcnow\<close> as its date.
\<close>

definition add_commit ::
  "database \<Rightarrow> datetime \<Rightarrow> string \<Rightarrow> string \<Rightarrow> string \<Rightarrow> string \<Rightarrow> dict
     \<Rightarrow> db_error + database \<times> Quiz" where
  "add_commit db now u t content html data =
     (if u \<in> set (map Quiz_url (rows db)) then Inl IntegrityError
      else
        let record = \<lparr>Quiz_id = next_id db, Quiz_url = u, Quiz_title = t,
                       date_generated = now, scraped_content = Some content,
                       raw_html = Some html, full_quiz_data = data\<rparr>
        in Inr (db\<lparr>rows := rows db @ [record], next_id := Suc (next_id db)\<rparr>, record))"

text \<open>What \<^verbatim>\<open>check_cache\<close> makes of the row it finds.\<close>

definition cached_data :: "Quiz \<Rightarrow> dict" where
  "cached_data q =
     (let data = full_quiz_data q;
          data = AList.update ''id'' (JNum (int (Quiz_id q))) data;
          data = AList.update ''cached'' (JBool True) data
      in AList.update ''date_generated'' (JStr (isoformat (date_generated q))) data)"

definition check_cache :: "database \<Rightarrow> string \<Rightarrow> dict option" where
  "check_cache db u =
     (let u = strip u in
      case find (\<lambda>q. Quiz_url q = u) (rows db) of
        Some q \<Rightarrow> Some (cached_data q)
      | None \<Rightarrow> None)"

section \<open>main.py: the endpoint\<close>

record world =
  web :: web
  llm :: backend
  utcnow :: datetime

text \<open>
  How a request ends when it does not answer a dict: the \<^verbatim>\<open>HTTPException\<close>s of the
  endpoint, and the exception of the fetch it lets through.
\<close>

datatype api_error =
    Invalid_URL
  | Blocked
  | Unhandled fetch_error
  | Insufficient_text
  | LLM_generation_failed synth_error
  | Database_error

fun status_code :: "api_error \<Rightarrow> nat" where
  "status_code Invalid_URL = 400"
| "status_code Blocked = 422"
| "status_code (Unhandled e) = 500"
| "status_code Insufficient_text = 422"
| "status_code (LLM_generation_failed e) = 500"
| "status_code Database_error = 500"

definition valid_url :: "string \<Rightarrow> bool" where
  "valid_url u = (startswith u ''http://'' \<or> startswith u ''https://'')"

text \<open>
  From the scrape to the synthesized quiz, the part of the endpoint that does not touch
  the database: the title, the text, the page and the result.
\<close>

definition prepare :: "world \<Rightarrow> string \<Rightarrow> api_error + string \<times> string \<times> string \<times> dict" where
  "prepare w u =
     (case snd (scrape_wikipedia (web w) [] u) of
        Inl (HTTPError response) \<Rightarrow>
          let code = (case response of Some s \<Rightarrow> s | None \<Rightarrow> 500) in
          if code = 403 \<or> code = 429 then Inl Blocked else Inl (Unhandled (HTTPError response))
      | Inl e \<Rightarrow> Inl (Unhandled e)
      | Inr (t, content, html) \<Rightarrow>
          if content = [] \<or> length content < 200 then Inl Insufficient_text
          else
            (case generate_quiz (llm w) u t content of
               Inl e \<Rightarrow> Inl (LLM_generation_failed e)
             | Inr result \<Rightarrow> Inr (t, content, html, result)))"

text \<open>
  The \<^verbatim>\<open>try\<close> block that stores the result. The title of the row is
  \<^verbatim>\<open>result.get("title", title)\<close>; \<^verbatim>\<open>generate_quiz\<close> has left a string under
  that key, and the column takes the title of the page where the model finds none.
\<close>

definition store ::
  "world \<Rightarrow> database \<Rightarrow> string \<Rightarrow> string \<times> string \<times> string \<times> dict
     \<Rightarrow> db_error + database \<times> dict" where
  "store w db u p =
     (case p of (t, content, html, result) \<Rightarrow>
        (case add_commit db (utcnow w) u
                (case map_of result ''title'' of Some (JStr s) \<Rightarrow> s | _ \<Rightarrow> t)
                content html result of
           Inl e \<Rightarrow> Inl e
         | Inr (db', record) \<Rightarrow>
             let result_with_id = AList.update ''id'' (JNum (int (Quiz_id record))) result;
                 result_with_id = AList.update ''cached'' (JBool False) result_with_id
             in Inr (db', result_with_id)))"

text \<open>The handler of the \<^verbatim>\<open>IntegrityError\<close>.\<close>

definition recover :: "database \<Rightarrow> string \<Rightarrow> api_error + dict" where
  "recover db u =
     (case check_cache db u of Some cached \<Rightarrow> Inr cached | None \<Rightarrow> Inl Database_error)"

text \<open>One request served with no other request in between.\<close>

definition generate_quiz_endpoint ::
  "world \<Rightarrow> database \<Rightarrow> string \<Rightarrow> database \<times> (api_error + dict)" where
  "generate_quiz_endpoint w db body_url =
     (let u = strip body_url in
      if \<not> valid_url u then (db, Inl Invalid_URL)
      else
        (case check_cache db u of
           Some cached \<Rightarrow> (db, Inr cached)
         | None \<Rightarrow>
             (case prepare w u of
                Inl e \<Rightarrow> (db, Inl e)
              | Inr p \<Rightarrow>
                  (case store w db u p of
                     Inr (db', result_with_id) \<Rightarrow> (db', Inr result_with_id)
                   | Inl IntegrityError \<Rightarrow> (db, recover db u)))))"

section \<open>Requests served at the same time\<close>

text \<open>
  The endpoint holds no lock. It reaches the database three times: the first
  \<^verbatim>\<open>check_cache\<close>, the commit, and the \<^verbatim>\<open>check_cache\<close> of the handler. Each is one
  step of a request, and steps of other requests may come between them. Scraping and
  synthesis do not touch the database, so they are part of the step that commits.
\<close>

datatype pc = Start | Missed | Conflict | Done "api_error + dict"

fun is_Done :: "pc \<Rightarrow> bool" where
  "is_Done (Done r) = True"
| "is_Done _ = False"

fun request_step :: "world \<Rightarrow> string \<Rightarrow> database \<Rightarrow> pc \<Rightarrow> database \<times> pc" where
  "request_step w body_url db Start =
     (let u = strip body_url in
      if \<not> valid_url u then (db, Done (Inl Invalid_URL))
      else
        (case check_cache db u of
           Some cached \<Rightarrow> (db, Done (Inr cached))
         | None \<Rightarrow> (db, Missed)))"
| "request_step w body_url db Missed =
     (let u = strip body_url in
      case prepare w u of
        Inl e \<Rightarrow> (db, Done (Inl e))
      | Inr p \<Rightarrow>
          (case store w db u p of
             Inr (db', result_with_id) \<Rightarrow> (db', Done (Inr result_with_id))
           | Inl IntegrityError \<Rightarrow> (db, Conflict)))"
| "request_step w body_url db Conflict = (db, Done (recover db (strip body_url)))"
| "request_step w body_url db (Done r) = (db, Done r)"

text \<open>
  The requests are a list of worlds and urls; a state is the database and where each
  request stands. A step is a step of one request that has not answered yet.
\<close>

inductive step ::
  "(world \<times> string) list \<Rightarrow> database \<times> pc list \<Rightarrow> database \<times> pc list \<Rightarrow> bool"
  for reqs :: "(world \<times> string) list" where
  serve: "i < length pcs \<Longrightarrow> i < length reqs \<Longrightarrow> \<not> is_Done (pcs ! i) \<Longrightarrow>
   request_step (fst (reqs ! i)) (snd (reqs ! i)) db (pcs ! i) = (db', p') \<Longrightarrow>
   step reqs (db, pcs) (db', pcs[i := p'])"

text \<open>How many times a request still reaches the database, at most.\<close>

fun remaining :: "pc \<Rightarrow> nat" where
  "remaining Start = 3"
| "remaining Missed = 2"
| "remaining Conflict = 1"
| "remaining (Done r) = 0"

text \<open>The same for a state: the steps it can still take, at most.\<close>

definition work :: "database \<times> pc list \<Rightarrow> nat" where
  "work s = sum_list (map remaining (snd s))"

text \<open>
  What a response says of the quiz, without the three keys the endpoint adds; and a
  response that answers for a row: it carries the id of the row and the quiz the row
  stores.
\<close>

definition quiz_data :: "dict \<Rightarrow> dict" where
  "quiz_data d = filter (\<lambda>(k, v). k \<notin> set [''id'', ''cached'', ''date_generated'']) d"

definition answers_for :: "dict \<Rightarrow> Quiz \<Rightarrow> bool" where
  "answers_for d r =
     (map_of d ''id'' = Some (JNum (int (Quiz_id r))) \<and>
      quiz_data d = quiz_data (full_quiz_data r))"

text \<open>
  What holds of a request wherever it stands, in a database \<open>db\<close>: a request in the
  handler of the \<^verbatim>\<open>IntegrityError\<close> has its url in the table; a request that
  answered a dict answers for a row of the table with its url; a request that answered an
  error was refused for its url or failed before the commit. The invariant of the
  system: no two rows have the same url, and this holds of every request.
\<close>

fun request_ok :: "database \<Rightarrow> world \<times> string \<Rightarrow> pc \<Rightarrow> bool" where
  "request_ok db (w, body) Start = True"
| "request_ok db (w, body) Missed = True"
| "request_ok db (w, body) Conflict = (strip body \<in> set (map Quiz_url (rows db)))"
| "request_ok db (w, body) (Done (Inr d)) =
     (\<exists>r \<in> set (rows db). Quiz_url r = strip body \<and> answers_for d r)"
| "request_ok db (w, body) (Done (Inl e)) =
     (e = Invalid_URL \<and> \<not> valid_url (strip body) \<or> prepare w (strip body) = Inl e)"

definition invariant :: "(world \<times> string) list \<Rightarrow> database \<times> pc list \<Rightarrow> bool" where
  "invariant reqs s = (distinct (map Quiz_url (rows (fst s))) \<and> list_all2 (request_ok (fst s)) reqs (snd s))"

section \<open>Example documents and backends\<close>

definition example_item :: "string \<Rightarrow> string \<Rightarrow> json" where
  "example_item a l =
     JObj [(''question'', JStr ''Which river is the longest?''),
           (''options'', JArr [JStr ''Nile'', JStr ''Rhine'', JStr ''Volga'', JStr ''Loire'']),
           (''answer'', JStr a),
           (''difficulty'', JStr l),
           (''explanation'', JStr ''See the section Geography.'')]"

definition example_doc :: "string \<Rightarrow> json \<Rightarrow> json list \<Rightarrow> dict" where
  "example_doc t k items =
     [(''url'', JStr ''https://example.org''),
      (''title'', JStr t),
      (''summary'', JStr ''Rivers of the world.''),
      (''key_entities'', k),
      (''sections'', JArr [JStr ''Geography'']),
      (''quiz'', JArr items),
      (''related_topics'', JArr [JStr ''Delta''])]"

text \<open>
  A backend with one model; it answers a prompt with \<open>g\<close> and parses a text with \<open>l\<close>.
\<close>

definition example_backend ::
  "(string \<Rightarrow> string + string) \<Rightarrow> (string \<Rightarrow> json option) \<Rightarrow> backend" where
  "example_backend g l =
     \<lparr>list_models = Inr [\<lparr>name = ''models/gemini-1.5-flash'',
                           supported_generation_methods = [''generateContent'']\<rparr>],
      GEMINI_MODEL = None,
      generate_content = (\<lambda>m. g),
      json_loads = l\<rparr>"

text \<open>
  A backend that answers the prompt \<open>first\<close> with a sentence and every other prompt
  with a text that parses to \<open>d\<close>.
\<close>

definition retry_backend :: "string \<Rightarrow> dict \<Rightarrow> backend" where
  "retry_backend first d =
     example_backend
       (\<lambda>p. if p = first then Inr ''Here is your quiz!'' else Inr ''{}'')
       (\<lambda>s. if s = ''{}'' then Some (JObj d) else None)"

text \<open>
  An article source that answers every request of the mobile identity with \<open>mobile\<close>
  and every other request with \<open>desktop\<close>; the text of a page is the page.
\<close>

definition example_web :: "string + nat \<times> string \<Rightarrow> string + nat \<times> string \<Rightarrow> web" where
  "example_web desktop mobile =
     \<lparr>requests_get = (\<lambda>u h. if h = MOBILE_HEADERS then mobile else desktop),
      extract_page = (\<lambda>html. (''Nile'', html))\<rparr>"

text \<open>
  A world whose article source answers every desktop request with a page of \<open>n\<close>
  characters and whose backend answers every prompt with the document \<open>d\<close>; and the
  database after \<^verbatim>\<open>init_db\<close>.
\<close>

definition example_world :: "nat \<Rightarrow> dict \<Rightarrow> world" where
  "example_world n d =
     \<lparr>web = example_web (Inr (200, replicate n (CHR ''a''))) (Inl ''no answer''),
      llm = example_backend (\<lambda>p. Inr ''{}'') (\<lambda>s. Some (JObj d)),
      utcnow = \<lparr>year = 2025, month = 1, day = 2, hour = 3, minute = 4, second = 5,
                 microsecond = 0\<rparr>\<rparr>"

definition empty_database :: database where
  "empty_database = \<lparr>rows = [], next_id = 1\<rparr>"

text \<open>
  The row that the world \<open>example_world 200 d\<close> stores for an article url in the empty
  database.
\<close>

definition example_url :: string where
  "example_url = ''https://en.wikipedia.org/wiki/Nile''"

definition example_row :: "dict \<Rightarrow> Quiz" where
  "example_row d =
     \<lparr>Quiz_id = 1, Quiz_url = example_url,
      Quiz_title = (case map_of d ''title'' of Some (JStr s) \<Rightarrow> s | _ \<Rightarrow> ''Nile''),
      date_generated = \<lparr>year = 2025, month = 1, day = 2, hour = 3, minute = 4, second = 5,
                         microsecond = 0\<rparr>,
      scraped_content = Some (replicate 200 (CHR ''a'')),
      raw_html = Some (replicate 200 (CHR ''a'')),
      full_quiz_data = d\<rparr>"

text \<open>
  A backend that answers the prompt \<open>first_prompt\<close> with the text \<open>first_reply\<close> and
  every other prompt with the text \<open>second_reply\<close>, and parses the texts of the table
  \<open>parses\<close> and no other. The text \<open>fenced\<close> is an empty object in a code fence.
\<close>

definition scripted_backend ::
  "string \<Rightarrow> string \<Rightarrow> string \<Rightarrow> (string \<times> json) list \<Rightarrow> backend" where
  "scripted_backend first_prompt first_reply second_reply parses =
     example_backend (\<lambda>p. if p = first_prompt then Inr first_reply else Inr second_reply)
       (map_of parses)"

definition fenced :: string where
  "fenced = [CHR 0x60, CHR 0x60, CHR 0x60] @ ''json'' @ nl @ ''{}'' @ nl @
            [CHR 0x60, CHR 0x60, CHR 0x60]"

section \<open>Facts about the schema\<close>

lemma those_Some_iff: "those xs = Some ys \<longleftrightarrow> xs = map Some ys"
  by (induction xs arbitrary: ys) (auto split: option.splits)

lemma validate_list_Some:
  "validate_list v j = Some ys \<longleftrightarrow> (\<exists>xs. j = JArr xs \<and> map v xs = map Some ys)"
  by (cases j) (auto simp: those_Some_iff)

lemma map_of_update: "map_of (AList.update k v d) k' = (if k' = k then Some v else map_of d k')"
  by (simp add: update_conv')

lemma QuizItem_shape:
  assumes "QuizItem_model_validate j = Some i"
  shows "length (options i) = 4 \<and> difficulty i \<in> {''easy'', ''medium'', ''hard''}"
proof -
  obtain d where j: "j = JObj d" using assms by (cases j) auto
  from assms show ?thesis unfolding j
    by (auto simp: required_def validate_options_def validate_literal_def Difficulty_def
        split: option.splits if_splits json.splits Option.bind_splits)
qed

lemma map_Some_all:
  "map v xs = map Some ys \<Longrightarrow> (\<And>x y. v x = Some y \<Longrightarrow> P y) \<Longrightarrow> list_all P ys"
  by (induction xs arbitrary: ys) auto

lemma validate_list_all:
  assumes "validate_list v j = Some ys" and "\<And>x y. v x = Some y \<Longrightarrow> P y"
  shows "list_all P ys"
  using assms by (auto simp: validate_list_Some intro: map_Some_all)

lemma QuizOutput_shape:
  assumes "QuizOutput_model_validate j = Some q"
  shows "list_all (\<lambda>i. length (options i) = 4 \<and> difficulty i \<in> {''easy'', ''medium'', ''hard''}) (quiz q)"
proof -
  obtain d where j: "j = JObj d" using assms by (cases j) auto
  from assms obtain v where "validate_list QuizItem_model_validate v = Some (quiz q)"
    unfolding j by (auto simp: required_def split: option.splits Option.bind_splits)
  then show ?thesis by (rule validate_list_all) (rule QuizItem_shape)
qed

lemma required_update:
  "required (AList.update k v d) k' f = (if k' = k then f v else required d k' f)"
  by (simp add: required_def map_of_update)

lemma required_str: "required d k validate_str = Some s \<longleftrightarrow> map_of d k = Some (JStr s)"
  by (auto simp: required_def split: option.splits elim: validate_str.elims)

lemma QuizOutput_valid_iff:
  "QuizOutput_model_validate (JObj d) = Some q \<longleftrightarrow>
     map_of d ''url'' = Some (JStr (url q)) \<and>
     map_of d ''title'' = Some (JStr (title q)) \<and>
     map_of d ''summary'' = Some (JStr (summary q)) \<and>
     required d ''key_entities'' KeyEntities_model_validate = Some (key_entities q) \<and>
     required d ''sections'' (validate_list validate_str) = Some (sections q) \<and>
     required d ''quiz'' (validate_list QuizItem_model_validate) = Some (quiz q) \<and>
     required d ''related_topics'' (validate_list validate_str) = Some (related_topics q)"
  by (cases q) (auto simp: bind_eq_Some_conv required_str)

lemma fill_in_valid:
  assumes "QuizOutput_model_validate (JObj d) = Some q"
  shows "QuizOutput_model_validate (JObj (fill_in u t d)) =
           Some (q\<lparr>url := u, title := (if title q = [] then t else title q)\<rparr>)"
  using assms unfolding QuizOutput_valid_iff fill_in_def
  by (simp add: required_update map_of_update Let_def)

lemma lower_Difficulty: "s \<in> set Difficulty \<Longrightarrow> lower s = s"
  unfolding Difficulty_def by (auto; code_simp)

lemma lower_difficulty_valid:
  assumes "QuizItem_model_validate j = Some i"
  shows "lower_difficulty j = Some j"
proof -
  obtain q where j: "j = JObj q" using assms by (cases j) auto
  from assms obtain s where s: "map_of q ''difficulty'' = Some (JStr s)" "s \<in> set Difficulty"
    unfolding j by (auto simp: bind_eq_Some_conv required_def validate_literal_def
        split: option.splits json.splits if_splits)
  then show ?thesis unfolding j by (simp add: lower_Difficulty update_triv)
qed

lemma those_lower_difficulty:
  "map QuizItem_model_validate qs = map Some is \<Longrightarrow> those (map lower_difficulty qs) = Some qs"
  by (induction qs arbitrary: "is") (auto simp: lower_difficulty_valid)

lemma lower_difficulties_valid:
  assumes "QuizOutput_model_validate (JObj d) = Some q"
  shows "lower_difficulties d = Some d"
proof -
  from assms obtain qs where qs: "map_of d ''quiz'' = Some (JArr qs)"
    "map QuizItem_model_validate qs = map Some (quiz q)"
    unfolding QuizOutput_valid_iff
    by (auto simp: required_def validate_list_Some split: option.splits)
  then show ?thesis
    by (simp add: lower_difficulties_def those_lower_difficulty update_triv)
qed

lemma try_once_Inr_iff:
  "try_once b m p = Inr d \<longleftrightarrow>
     (\<exists>resp. generate_content b m p = Inr resp \<and> clean_json_text resp \<noteq> [] \<and>
        json_loads b (clean_json_text resp) = Some (JObj d) \<and>
        QuizOutput_model_validate (JObj d) \<noteq> None)"
proof
  assume "try_once b m p = Inr d"
  then show "\<exists>resp. generate_content b m p = Inr resp \<and> clean_json_text resp \<noteq> [] \<and>
        json_loads b (clean_json_text resp) = Some (JObj d) \<and>
        QuizOutput_model_validate (JObj d) \<noteq> None"
    by (auto simp: try_once_def Let_def lower_difficulties_valid
        split: sum.splits option.splits if_splits json.splits)
next
  assume "\<exists>resp. generate_content b m p = Inr resp \<and> clean_json_text resp \<noteq> [] \<and>
        json_loads b (clean_json_text resp) = Some (JObj d) \<and>
        QuizOutput_model_validate (JObj d) \<noteq> None"
  then show "try_once b m p = Inr d"
    by (auto simp: try_once_def Let_def lower_difficulties_valid)
qed


lemma pick_example: "pick_model (example_backend g l) = Inr ''models/gemini-1.5-flash''"
  by (simp add: pick_model_def example_backend_def last_segment_def preferences_def)

lemma clean_braces: "clean_json_text ''{}'' = ''{}''"
  by (simp add: clean_json_text_def strip_def strip_chars_def lstrip_chars_def rstrip_chars_def
      whitespace_def startswith_def endswith_def)

lemma valid_example_item:
  "QuizItem_model_validate (example_item a ''easy'') =
     Some \<lparr>question = ''Which river is the longest?'',
           options = [''Nile'', ''Rhine'', ''Volga'', ''Loire''],
           answer = a, difficulty = ''easy'',
           explanation = ''See the section Geography.''\<rparr>"
  by (simp add: example_item_def required_def validate_options_def validate_literal_def
      Difficulty_def)

lemma valid_example_doc:
  "QuizOutput_model_validate (JObj (example_doc t (JObj []) [])) =
     Some \<lparr>url = ''https://example.org'', title = t, summary = ''Rivers of the world.'',
           key_entities = \<lparr>people = [], organizations = [], locations = []\<rparr>,
           sections = [''Geography''], quiz = [], related_topics = [''Delta'']\<rparr>"
  by (simp add: example_doc_def required_def with_default_def)

lemma valid_example_doc_1:
  "QuizOutput_model_validate (JObj (example_doc t (JObj []) [example_item a ''easy''])) =
     Some \<lparr>url = ''https://example.org'', title = t, summary = ''Rivers of the world.'',
           key_entities = \<lparr>people = [], organizations = [], locations = []\<rparr>,
           sections = [''Geography''],
           quiz = [\<lparr>question = ''Which river is the longest?'',
                    options = [''Nile'', ''Rhine'', ''Volga'', ''Loire''],
                    answer = a, difficulty = ''easy'',
                    explanation = ''See the section Geography.''\<rparr>],
           related_topics = [''Delta'']\<rparr>"
  by (simp add: example_doc_def required_def with_default_def valid_example_item)

lemma generate_quiz_first:
  assumes "pick_model b = Inr m"
    and "try_once b m (PROMPT_TEMPLATE_format u t (take 18000 a)) = Inr r"
  shows "generate_quiz b u t a = Inr (fill_in u t r)"
  using assms by (simp add: generate_quiz_def)

lemma try_once_example:
  assumes "QuizOutput_model_validate (JObj d) = Some q"
  shows "try_once (example_backend (\<lambda>p. Inr ''{}'') (\<lambda>s. Some (JObj d))) m p = Inr d"
  unfolding try_once_Inr_iff using assms
  by (simp add: example_backend_def clean_braces)

lemma map_validate_str:
  "map validate_str ys = map Some xs \<longleftrightarrow> ys = map JStr xs"
proof (induction ys arbitrary: xs)
  case Nil
  then show ?case by auto
next
  case (Cons y ys)
  show ?case
  proof (cases xs)
    case Nil
    then show ?thesis by simp
  next
    case (Cons x xs')
    then show ?thesis using Cons.IH [of xs'] by (cases y) auto
  qed
qed

lemma validate_str_list:
  "validate_list validate_str j = Some xs \<longleftrightarrow> j = JArr (map JStr xs)"
  by (auto simp: validate_list_Some map_validate_str)

lemma required_str_list:
  "required d k (validate_list validate_str) = Some xs \<longleftrightarrow> map_of d k = Some (JArr (map JStr xs))"
  by (auto simp: required_def validate_str_list split: option.splits)

lemma map_JStr_eq: "map JStr xs = map JStr ys \<longleftrightarrow> xs = ys"
  by (rule inj_map_eq_map) (simp add: inj_def)

lemma validate_options_iff:
  "validate_options j = Some xs \<longleftrightarrow> j = JArr (map JStr xs) \<and> length xs = 4"
proof (cases "validate_list validate_str j")
  case None
  then have "j \<noteq> JArr (map JStr xs)"
    using validate_str_list [of j xs] by auto
  with None show ?thesis by (simp add: validate_options_def)
next
  case (Some ys)
  then have "j = JArr (map JStr ys)" by (simp only: validate_str_list)
  with Some show ?thesis by (auto simp: validate_options_def map_JStr_eq)
qed

lemma required_options:
  "required d k validate_options = Some xs \<longleftrightarrow>
     map_of d k = Some (JArr (map JStr xs)) \<and> length xs = 4"
  by (auto simp: required_def validate_options_iff split: option.splits)

lemma required_literal:
  "required d k (validate_literal Difficulty) = Some s \<longleftrightarrow>
     map_of d k = Some (JStr s) \<and> s \<in> {''easy'', ''medium'', ''hard''}"
  by (auto simp: required_def validate_literal_def Difficulty_def
      split: option.splits json.splits)

lemma with_default_str_list:
  "with_default d k (validate_list validate_str) [] = Some xs \<longleftrightarrow>
     (case map_of d k of None \<Rightarrow> xs = [] | Some v \<Rightarrow> v = JArr (map JStr xs))"
  by (auto simp: with_default_def validate_str_list split: option.splits)

lemma KeyEntities_valid_iff:
  "KeyEntities_model_validate (JObj k) = Some e \<longleftrightarrow>
     (case map_of k ''people'' of None \<Rightarrow> people e = []
      | Some v \<Rightarrow> v = JArr (map JStr (people e))) \<and>
     (case map_of k ''organizations'' of None \<Rightarrow> organizations e = []
      | Some v \<Rightarrow> v = JArr (map JStr (organizations e))) \<and>
     (case map_of k ''locations'' of None \<Rightarrow> locations e = []
      | Some v \<Rightarrow> v = JArr (map JStr (locations e)))"
  by (cases e) (auto simp: bind_eq_Some_conv with_default_str_list split: option.splits)

lemma KeyEntities_restrict:
  assumes "KeyEntities_model_validate (JObj k) = Some e"
  shows "KeyEntities_model_validate (JObj (AList.restrict (- A) k)) =
     Some \<lparr>people = (if ''people'' \<in> A then [] else people e),
           organizations = (if ''organizations'' \<in> A then [] else organizations e),
           locations = (if ''locations'' \<in> A then [] else locations e)\<rparr>"
  using assms unfolding KeyEntities_valid_iff
  by (auto simp: restr_conv' restrict_map_def split: option.splits)

section \<open>Facts about the generator\<close>

lemma clean_sentence: "clean_json_text ''Here is your quiz!'' = ''Here is your quiz!''"
  by (simp add: clean_json_text_def strip_def strip_chars_def lstrip_chars_def rstrip_chars_def
      whitespace_def startswith_def endswith_def str_rfind_def Let_def)

lemma pick_retry: "pick_model (retry_backend p d) = Inr ''models/gemini-1.5-flash''"
  unfolding retry_backend_def by (rule pick_example)

lemma retry_first: "try_once (retry_backend p d) m p = Inl (Raised JSONDecodeError)"
  by (simp add: try_once_def retry_backend_def example_backend_def clean_sentence)

lemma retry_second:
  assumes "QuizOutput_model_validate (JObj d) = Some q"
  shows "try_once (retry_backend p d) m (p @ REMINDER) = Inr d"
  unfolding try_once_Inr_iff using assms
  by (simp add: retry_backend_def example_backend_def clean_braces REMINDER_def nl_def)

lemma generate_quiz_second:
  assumes "pick_model b = Inr m"
    and "try_once b m (PROMPT_TEMPLATE_format u t (take 18000 a)) = Inl e"
  shows "generate_quiz b u t a =
     (case try_once b m (PROMPT_TEMPLATE_format u t (take 18000 a) @ REMINDER) of
        Inr r \<Rightarrow> Inr (fill_in u t r)
      | Inl e2 \<Rightarrow> Inl (Model_failed m e2))"
  using assms by (simp add: generate_quiz_def)

lemma fill_in_other:
  "k \<noteq> ''url'' \<Longrightarrow> k \<noteq> ''title'' \<Longrightarrow> map_of (fill_in u t r) k = map_of r k"
  by (simp add: fill_in_def map_of_update Let_def)

lemma fill_in_url: "map_of (fill_in u t r) ''url'' = Some (JStr u)"
  by (simp add: fill_in_def map_of_update Let_def)

lemma fill_in_title:
  "map_of r ''title'' = Some (JStr own) \<Longrightarrow>
   map_of (fill_in u t r) ''title'' = Some (JStr (if own = [] then t else own))"
  by (simp add: fill_in_def map_of_update Let_def)

lemma lower_Easy: "lower ''Easy'' = ''easy''"
  by code_simp

lemma clean_fenced: "clean_json_text fenced = ''{}'' @ nl"
  by code_simp

lemma clean_Easy: "clean_json_text ''{Easy}'' = ''{Easy}''"
  by code_simp

lemma valid_is_dict: "QuizOutput_model_validate data = Some q \<Longrightarrow> \<exists>d. data = JObj d"
  by (cases data) auto

lemma try_once_response:
  assumes "generate_content b m p = Inr resp"
  shows "try_once b m p =
     (if clean_json_text resp = [] then Inl Empty_model_response
      else case json_loads b (clean_json_text resp) of
             None \<Rightarrow> Inl (Raised JSONDecodeError)
           | Some data \<Rightarrow>
               (case QuizOutput_model_validate data of
                  None \<Rightarrow> Inl (Raised ValidationError)
                | Some q \<Rightarrow> (case data of JObj d \<Rightarrow> Inr d | _ \<Rightarrow> Inl (Raised AttributeError))))"
proof (cases "clean_json_text resp = []")
  case True
  with assms show ?thesis by (simp add: try_once_def)
next
  case ne: False
  show ?thesis
  proof (cases "json_loads b (clean_json_text resp)")
    case None
    with assms ne show ?thesis by (simp add: try_once_def)
  next
    case (Some data)
    show ?thesis
    proof (cases "QuizOutput_model_validate data")
      case None
      with assms ne Some show ?thesis by (simp add: try_once_def)
    next
      case (Some q)
      then obtain d where d: "data = JObj d" using valid_is_dict by blast
      with Some have "QuizOutput_model_validate (JObj d) \<noteq> None" by simp
      with assms ne \<open>json_loads b (clean_json_text resp) = Some data\<close> d
      have "try_once b m p = Inr d" unfolding try_once_Inr_iff by simp
      with ne \<open>json_loads b (clean_json_text resp) = Some data\<close> Some d show ?thesis by simp
    qed
  qed
qed

lemma pick_scripted: "pick_model (scripted_backend p f s ps) = Inr ''models/gemini-1.5-flash''"
  unfolding scripted_backend_def by (rule pick_example)

lemma scripted_replies:
  "generate_content (scripted_backend p f s ps) m p = Inr f"
  "generate_content (scripted_backend p f s ps) m (p @ REMINDER) = Inr s"
  "json_loads (scripted_backend p f s ps) = map_of ps"
  by (simp_all add: scripted_backend_def example_backend_def REMINDER_def nl_def)

lemma invalid_Easy:
  "QuizOutput_model_validate
     (JObj (example_doc ''Rivers'' (JObj []) [example_item ''Nile'' ''Easy''])) = None"
  by (simp add: example_doc_def example_item_def required_def with_default_def
      validate_options_def validate_literal_def Difficulty_def)

section \<open>Facts about the scraper\<close>


lemma headers_differ: "DESKTOP_HEADERS \<noteq> MOBILE_HEADERS"
  by (simp add: DESKTOP_HEADERS_def MOBILE_HEADERS_def)

lemma example_web_get:
  "requests_get (example_web desktop mobile) u DESKTOP_HEADERS = desktop"
  "requests_get (example_web desktop mobile) u MOBILE_HEADERS = mobile"
  using headers_differ by (simp_all add: example_web_def)

lemma startswith_append: "startswith (p @ s) p"
  by (simp add: startswith_def)

lemma replace_prefix:
  assumes "old \<noteq> []"
  shows "replace (old @ s) old new = new @ replace s old new"
  using assms by (subst replace.simps) (simp add: startswith_append)

lemma replace_absent:
  assumes "old \<noteq> []" and "\<not> contains s old"
  shows "replace s old new = s"
  using assms(2)
proof (induction s)
  case Nil
  show ?case using assms(1) by (subst replace.simps) simp
next
  case (Cons x xs)
  then have "\<not> startswith (x # xs) old" "replace xs old new = xs" by simp_all
  with assms(1) show ?case by (subst replace.simps) simp
qed

lemma contains_Nil: "contains s []"
  by (cases s) (simp_all add: startswith_def)

lemma contains_self_append: "contains (q @ s) q"
proof (cases "q @ s")
  case Nil
  then show ?thesis by simp
next
  case (Cons x xs)
  have "startswith (q @ s) q" by (rule startswith_append)
  with Cons have "startswith (x # xs) q" by simp
  with Cons show ?thesis by simp
qed

lemma contains_append_left: "contains s q \<Longrightarrow> contains (p @ s) q"
  by (induction p) auto

lemma contains_longer: "contains s (p @ q) \<Longrightarrow> contains s q"
proof (induction s)
  case Nil
  then show ?case by simp
next
  case (Cons x xs)
  show ?case
  proof (cases "startswith (x # xs) (p @ q)")
    case True
    then have "x # xs = (p @ q) @ drop (length (p @ q)) (x # xs)"
      unfolding startswith_def by (metis append_take_drop_id)
    then have "x # xs = p @ (q @ drop (length (p @ q)) (x # xs))" by simp
    moreover have "contains (p @ (q @ drop (length (p @ q)) (x # xs))) q"
      by (intro contains_append_left contains_self_append)
    ultimately show ?thesis by simp
  next
    case False
    with Cons show ?thesis by simp
  qed
qed

lemma replace_host:
  assumes "old \<noteq> []" and "\<not> contains s old"
  shows "replace (old @ s) old new = new @ s"
  by (simp only: replace_prefix [OF assms(1)] replace_absent [OF assms])

lemma mobile_url:
  assumes "\<not> contains path ''en.wikipedia.org''"
  shows "replace (''https://en.wikipedia.org'' @ path) ''https://en.wikipedia.org''
           ''https://m.wikipedia.org'' = ''https://m.wikipedia.org'' @ path"
proof -
  have e: "''https://'' @ ''en.wikipedia.org'' = ''https://en.wikipedia.org''" by simp
  have "\<not> contains path (''https://'' @ ''en.wikipedia.org'')"
    using assms contains_longer by blast
  then have c: "\<not> contains path ''https://en.wikipedia.org''" unfolding e .
  have n: "''https://en.wikipedia.org'' \<noteq> []" by simp
  show ?thesis by (rule replace_host [OF n c])
qed

text \<open>A url of the scheme http keeps its host.\<close>

lemma http_not_rewritten:
  "replace ''http://en.wikipedia.org/wiki/Nile'' ''https://en.wikipedia.org''
     ''https://m.wikipedia.org'' = ''http://en.wikipedia.org/wiki/Nile''"
  by code_simp



section \<open>Facts about the database and the endpoint\<close>

lemma lstrip_rstrip_lstrip:
  "lstrip_chars cs (rstrip_chars cs (lstrip_chars cs s)) = rstrip_chars cs (lstrip_chars cs s)"
proof -
  define P where "P = (\<lambda>c. c \<in> set cs)"
  define t where "t = dropWhile P s"
  define v where "v = rev (dropWhile P (rev t))"
  define n where "n = length t - length (takeWhile P (rev t))"
  have v: "v = take n t"
    unfolding v_def n_def by (simp add: dropWhile_eq_drop rev_drop)
  have "dropWhile P v = v"
  proof (cases v)
    case Nil
    then show ?thesis by simp
  next
    case (Cons x xs)
    with v have n: "0 < n" and t: "t \<noteq> []"
      by (cases n; auto)+
    from n have "hd v = hd t" unfolding v by (rule hd_take)
    moreover have "\<not> P (hd t)" using t unfolding t_def by (rule hd_dropWhile)
    ultimately show ?thesis using Cons by simp
  qed
  then show ?thesis
    unfolding lstrip_chars_def rstrip_chars_def P_def [symmetric] t_def [symmetric] v_def .
qed

lemma rstrip_rstrip: "rstrip_chars cs (rstrip_chars cs s) = rstrip_chars cs s"
  by (simp add: rstrip_chars_def)

lemma strip_strip: "strip (strip s) = strip s"
  by (simp add: strip_def strip_chars_def lstrip_rstrip_lstrip rstrip_rstrip)

lemma find_Some_set: "find P xs = Some x \<Longrightarrow> x \<in> set xs \<and> P x"
  by (auto simp: find_Some_iff)

lemma check_cache_found:
  assumes "strip u' \<in> set (map Quiz_url (rows db))"
  shows "\<exists>r \<in> set (rows db). Quiz_url r = strip u' \<and> check_cache db u' = Some (cached_data r)"
proof -
  from assms have "find (\<lambda>q. Quiz_url q = strip u') (rows db) \<noteq> None"
    by (auto simp: find_None_iff)
  then obtain r where r: "find (\<lambda>q. Quiz_url q = strip u') (rows db) = Some r" by auto
  then have "r \<in> set (rows db)" "Quiz_url r = strip u'"
    by (auto dest: find_Some_set)
  with r show ?thesis by (auto simp: check_cache_def)
qed

lemma check_cache_None:
  "check_cache db u = None \<longleftrightarrow> strip u \<notin> set (map Quiz_url (rows db))"
proof (cases "find (\<lambda>q. Quiz_url q = strip u) (rows db)")
  case None
  then have "strip u \<notin> set (map Quiz_url (rows db))" by (auto simp: find_None_iff)
  with None show ?thesis by (simp add: check_cache_def)
next
  case (Some r)
  from find_Some_set [OF this] have "strip u \<in> set (map Quiz_url (rows db))" by force
  with Some show ?thesis by (simp add: check_cache_def)
qed

lemma store_Inl:
  "store w db u p = Inl e \<longleftrightarrow> u \<in> set (map Quiz_url (rows db))"
  by (cases p; cases e) (auto simp: store_def add_commit_def Let_def split: sum.splits)

lemma store_Inr:
  assumes "u \<notin> set (map Quiz_url (rows db))"
  shows "\<exists>db' r. store w db u p = Inr (db', r)"
  using assms store_Inl [of w db u p] by (cases "store w db u p") auto

lemma cached_data_cached: "map_of (cached_data r) ''cached'' = Some (JBool True)"
  by (simp add: cached_data_def map_of_update Let_def)

lemma cached_data_id: "map_of (cached_data r) ''id'' = Some (JNum (int (Quiz_id r)))"
  by (simp add: cached_data_def map_of_update Let_def)

lemma filter_update_other:
  "\<not> P k \<Longrightarrow> filter (\<lambda>(k', v). P k') (AList.update k v al) = filter (\<lambda>(k', v). P k') al"
  by (induction al) auto

lemma quiz_data_update:
  "k \<in> set [''id'', ''cached'', ''date_generated''] \<Longrightarrow>
   quiz_data (AList.update k v d) = quiz_data d"
  unfolding quiz_data_def by (rule filter_update_other) simp

lemma answers_for_cached: "answers_for (cached_data r) r"
  by (simp add: answers_for_def cached_data_id) (simp add: cached_data_def quiz_data_update)

lemma filter_distinct_single:
  "distinct (map f xs) \<Longrightarrow> r \<in> set xs \<Longrightarrow> filter (\<lambda>x. f x = f r) xs = [r]"
proof (induction xs)
  case Nil
  then show ?case by simp
next
  case (Cons x xs)
  show ?case
  proof (cases "x = r")
    case True
    with Cons.prems have "f r \<notin> f ` set xs" by simp
    then have "\<forall>y \<in> set xs. f y \<noteq> f r" by (metis imageI)
    then have "filter (\<lambda>x. f x = f r) xs = []" by (simp add: filter_empty_conv)
    with True show ?thesis by simp
  next
    case False
    with Cons.prems have "r \<in> set xs" "f x \<noteq> f r" by auto
    with Cons show ?thesis by simp
  qed
qed

lemma ok_mono:
  assumes "set (rows db) \<subseteq> set (rows db')" and "request_ok db rq pc"
  shows "request_ok db' rq pc"
  using assms by (cases "(db, rq, pc)" rule: request_ok.cases) auto

lemma store_Inr_iff:
  "store w db u (t, content, html, result) = Inr (db', r) \<longleftrightarrow>
     u \<notin> set (map Quiz_url (rows db)) \<and>
     db' = db\<lparr>rows := rows db @
             [\<lparr>Quiz_id = next_id db, Quiz_url = u,
               Quiz_title = (case map_of result ''title'' of Some (JStr s) \<Rightarrow> s | _ \<Rightarrow> t),
               date_generated = utcnow w, scraped_content = Some content,
               raw_html = Some html, full_quiz_data = result\<rparr>],
           next_id := Suc (next_id db)\<rparr> \<and>
     r = AList.update ''cached'' (JBool False)
           (AList.update ''id'' (JNum (int (next_id db))) result)"
  by (auto simp: store_def add_commit_def Let_def)

lemma request_step_ok:
  assumes "request_step w body db pc = (db', pc')"
    and "distinct (map Quiz_url (rows db))"
    and "request_ok db (w, body) pc"
  shows "distinct (map Quiz_url (rows db')) \<and> set (rows db) \<subseteq> set (rows db') \<and>
         request_ok db' (w, body) pc'"
proof (cases pc)
  case Start
  show ?thesis
  proof (cases "valid_url (strip body)")
    case False
    with Start assms show ?thesis by auto
  next
    case True
    show ?thesis
    proof (cases "check_cache db (strip body)")
      case None
      with True Start assms show ?thesis by auto
    next
      case (Some c)
      then have "strip (strip body) \<in> set (map Quiz_url (rows db))"
        using check_cache_None [of db "strip body"] by auto
      from check_cache_found [OF this] Some obtain r
        where "r \<in> set (rows db)" "Quiz_url r = strip body" "c = cached_data r"
        by (auto simp: strip_strip)
      with True Start Some assms show ?thesis
        by (auto intro!: bexI [of _ r] answers_for_cached)
    qed
  qed
next
  case Missed
  show ?thesis
  proof (cases "prepare w (strip body)")
    case (Inl e)
    with Missed assms show ?thesis by auto
  next
    case (Inr p)
    obtain t content html result where p: "p = (t, content, html, result)"
      by (cases p) auto
    show ?thesis
    proof (cases "store w db (strip body) p")
      case (Inl e)
      then have "strip body \<in> set (map Quiz_url (rows db))" by (simp add: store_Inl)
      with Missed Inr Inl assms show ?thesis by (cases e) auto
    next
      case store: (Inr x)
      obtain db1 r where x: "x = (db1, r)" by (cases x) auto
      define row where "row = \<lparr>Quiz_id = next_id db, Quiz_url = strip body,
               Quiz_title = (case map_of result ''title'' of Some (JStr s) \<Rightarrow> s | _ \<Rightarrow> t),
               date_generated = utcnow w, scraped_content = Some content,
               raw_html = Some html, full_quiz_data = result\<rparr>"
      have row: "Quiz_url row = strip body" "Quiz_id row = next_id db"
        "full_quiz_data row = result"
        by (simp_all add: row_def)
      from store [unfolded x p store_Inr_iff] have
        fresh: "strip body \<notin> set (map Quiz_url (rows db))" and
        db1: "db1 = db\<lparr>rows := rows db @ [row], next_id := Suc (next_id db)\<rparr>" and
        r: "r = AList.update ''cached'' (JBool False)
              (AList.update ''id'' (JNum (int (Quiz_id row))) result)"
        by (simp_all add: row_def)
      have "answers_for r row"
        unfolding r answers_for_def by (simp add: map_of_update quiz_data_update row)
      moreover have "db' = db1" "pc' = Done (Inr r)"
        using assms(1) Missed Inr store x by auto
      ultimately show ?thesis
        using assms(2) fresh row db1 by (auto intro!: bexI [of _ row])
    qed
  qed
next
  case Conflict
  with assms have "strip (strip body) \<in> set (map Quiz_url (rows db))"
    by (simp add: strip_strip)
  from check_cache_found [OF this] obtain r
    where "r \<in> set (rows db)" "Quiz_url r = strip body"
      "check_cache db (strip body) = Some (cached_data r)"
    by (auto simp: strip_strip)
  with Conflict assms show ?thesis
    by (auto simp: recover_def intro!: bexI [of _ r] answers_for_cached)
next
  case (Done res)
  with assms show ?thesis by auto
qed

lemma step_inv:
  assumes "step reqs s s'" and "invariant reqs s"
  shows "invariant reqs s'"
proof -
  from assms(1) obtain i pcs db db' p' where
    s: "s = (db, pcs)" and s': "s' = (db', pcs[i := p'])" and
    i: "i < length pcs" and
    run: "request_step (fst (reqs ! i)) (snd (reqs ! i)) db (pcs ! i) = (db', p')"
    by (auto elim: step.cases)
  from assms(2) have d: "distinct (map Quiz_url (rows db))" and all: "list_all2 (request_ok db) reqs pcs"
    by (simp_all add: invariant_def s)
  from all i have "request_ok db (reqs ! i) (pcs ! i)" by (simp add: list_all2_nthD2)
  then have "request_ok db (fst (reqs ! i), snd (reqs ! i)) (pcs ! i)" by simp
  from request_step_ok [OF run d this]
  have d': "distinct (map Quiz_url (rows db'))" and sub: "set (rows db) \<subseteq> set (rows db')"
    and new: "request_ok db' (reqs ! i) p'" by simp_all
  from all sub have "list_all2 (request_ok db') reqs pcs"
    by (auto simp: list_all2_conv_all_nth intro: ok_mono)
  with new have "list_all2 (request_ok db') (reqs[i := reqs ! i]) (pcs[i := p'])"
    by (rule list_all2_update_cong [rotated])
  with d' show ?thesis by (simp add: invariant_def s')
qed

lemma reachable_inv:
  assumes "(step reqs)\<^sup>*\<^sup>* s s'" and "invariant reqs s"
  shows "invariant reqs s'"
  using assms by (induction rule: rtranclp_induct) (auto intro: step_inv)

lemma inv_initial:
  "distinct (map Quiz_url (rows db0)) \<Longrightarrow> invariant reqs (db0, replicate (length reqs) Start)"
  by (auto simp: invariant_def list_all2_conv_all_nth) (metis request_ok.simps(1) prod.collapse)

lemma done_row:
  assumes "request_ok db (w, body) pc" and "is_Done pc" and "valid_url (strip body)"
    and "prepare w (strip body) = Inr p"
  shows "\<exists>d r. pc = Done (Inr d) \<and> r \<in> set (rows db) \<and> Quiz_url r = strip body \<and>
           answers_for d r"
proof -
  from assms(2) obtain res where pc: "pc = Done res" by (cases pc) auto
  show ?thesis
  proof (cases res)
    case (Inl e)
    with assms pc show ?thesis by auto
  next
    case (Inr d)
    with assms(1) pc show ?thesis by auto
  qed
qed

lemma strip_example_url: "strip example_url = example_url" "strip (example_url @ '' '') = example_url"
  unfolding example_url_def by code_simp+

lemma valid_example_url: "valid_url example_url"
  by (simp add: valid_url_def startswith_def example_url_def)

lemma scrape_example:
  "snd (scrape_wikipedia (web (example_world n d)) [] u) =
     Inr (''Nile'', replicate n (CHR ''a''), replicate n (CHR ''a''))"
  by (simp add: scrape_wikipedia_def fetch_def example_world_def example_web_get)
    (simp add: example_web_def)

lemma prepare_example:
  assumes "QuizOutput_model_validate (JObj d) = Some q" and "200 \<le> n"
  shows "prepare (example_world n d) u =
     Inr (''Nile'', replicate n (CHR ''a''), replicate n (CHR ''a''), fill_in u ''Nile'' d)"
proof -
  have "generate_quiz (llm (example_world n d)) u ''Nile'' (replicate n (CHR ''a'')) =
      Inr (fill_in u ''Nile'' d)"
    unfolding example_world_def world.simps
    by (rule generate_quiz_first [OF pick_example try_once_example [OF assms(1)]])
  with assms(2) show ?thesis
    by (auto simp: prepare_def scrape_example)
qed

lemma prepare_example_short:
  "n < 200 \<Longrightarrow> prepare (example_world n d) u = Inl Insufficient_text"
  by (simp add: prepare_def scrape_example)

lemma check_cache_empty: "check_cache empty_database u = None"
  by (simp add: check_cache_def empty_database_def)

lemma store_example:
  "store (example_world 200 d) empty_database example_url
     (''Nile'', replicate 200 (CHR ''a''), replicate 200 (CHR ''a''), r) =
   Inr (\<lparr>rows = [example_row r], next_id = 2\<rparr>,
        AList.update ''cached'' (JBool False) (AList.update ''id'' (JNum 1) r))"
  by (simp add: store_def add_commit_def empty_database_def example_world_def example_row_def
      Let_def)

lemma store_example_conflict:
  "store w \<lparr>rows = [example_row r], next_id = 2\<rparr> example_url p = Inl IntegrityError"
  by (cases p) (simp add: store_def add_commit_def example_row_def)

lemma recover_example:
  "recover \<lparr>rows = [example_row r], next_id = 2\<rparr> example_url = Inr (cached_data (example_row r))"
  by (simp add: recover_def check_cache_def strip_example_url) (simp add: example_row_def)

lemma step_at:
  assumes "i < length pcs" and "i < length reqs" and "\<not> is_Done (pcs ! i)"
    and "request_step (fst (reqs ! i)) (snd (reqs ! i)) db (pcs ! i) = (db', p')"
    and "pcs' = pcs[i := p']"
  shows "step reqs (db, pcs) (db', pcs')"
  using serve [OF assms(1-4)] assms(5) by simp

lemma request_step_remaining:
  assumes "request_step w body db pc = (db', pc')" and "\<not> is_Done pc"
  shows "remaining pc' < remaining pc"
proof (cases pc)
  case Start
  with assms(1) show ?thesis by (auto simp: Let_def split: if_splits option.splits)
next
  case Missed
  with assms(1) show ?thesis
    by (auto simp: Let_def split: sum.splits db_error.splits prod.splits)
next
  case Conflict
  with assms(1) show ?thesis by auto
next
  case (Done r)
  with assms(2) show ?thesis by simp
qed

lemma sum_list_update_less:
  fixes xs :: "nat list"
  assumes "i < length xs" and "y < xs ! i"
  shows "sum_list (xs[i := y]) < sum_list xs"
proof -
  have "xs ! i \<le> sum_list xs" using assms(1) by (simp add: member_le_sum_list)
  with assms show ?thesis by (simp add: sum_list_update)
qed

lemma step_work:
  assumes "step reqs s s'"
  shows "work s' < work s"
proof -
  from assms obtain i pcs db db' p' where
    s: "s = (db, pcs)" and s': "s' = (db', pcs[i := p'])" and
    i: "i < length pcs" and n: "\<not> is_Done (pcs ! i)" and
    run: "request_step (fst (reqs ! i)) (snd (reqs ! i)) db (pcs ! i) = (db', p')"
    by (auto elim: step.cases)
  from request_step_remaining [OF run n] i
  have "sum_list ((map remaining pcs)[i := remaining p']) < sum_list (map remaining pcs)"
    by (intro sum_list_update_less) simp_all
  then show ?thesis by (simp add: work_def s s' map_update)
qed

lemma step_wf: "wfP (\<lambda>s' s. step reqs s s')"
  by (rule wfp_if_convertible_to_nat [of _ work]) (rule step_work)

lemma step_length:
  assumes "step reqs s s'"
  shows "length (snd s') = length (snd s)"
  using assms by (auto elim: step.cases)

lemma step_exists_iff:
  assumes "length pcs = length reqs"
  shows "(\<exists>s'. step reqs (db, pcs) s') \<longleftrightarrow> \<not> list_all is_Done pcs"
proof
  assume "\<exists>s'. step reqs (db, pcs) s'"
  then obtain i where "i < length pcs" "\<not> is_Done (pcs ! i)"
    by (auto elim: step.cases)
  then show "\<not> list_all is_Done pcs" by (auto simp: list_all_length)
next
  assume "\<not> list_all is_Done pcs"
  then obtain i where i: "i < length pcs" "\<not> is_Done (pcs ! i)"
    by (auto simp: list_all_length)
  obtain db' p' where
    "request_step (fst (reqs ! i)) (snd (reqs ! i)) db (pcs ! i) = (db', p')"
    by (cases "request_step (fst (reqs ! i)) (snd (reqs ! i)) db (pcs ! i)") auto
  with i assms have "step reqs (db, pcs) (db', pcs[i := p'])"
    by (intro serve) simp_all
  then show "\<exists>s'. step reqs (db, pcs) s'" by blast
qed

lemma all_answer:
  assumes "length (snd s) = length reqs"
  shows "\<exists>s'. (step reqs)\<^sup>*\<^sup>* s s' \<and> list_all is_Done (snd s')"
  using step_wf [of reqs] assms
proof (induction s rule: wfp_induct_rule)
  case (less s)
  obtain db pcs where s: "s = (db, pcs)" by (cases s) auto
  show ?case
  proof (cases "list_all is_Done pcs")
    case True
    with s show ?thesis by auto
  next
    case False
    with less.prems s obtain s1 where 1: "step reqs s s1"
      using step_exists_iff [of pcs reqs db] by auto
    with less.prems have "length (snd s1) = length reqs" by (simp add: step_length)
    from less.IH [OF 1 this] obtain s' where
      "(step reqs)\<^sup>*\<^sup>* s1 s'" "list_all is_Done (snd s')" by blast
    with 1 show ?thesis by (meson converse_rtranclp_into_rtranclp)
  qed
qed

lemma invariant_length: "invariant reqs (db, pcs) \<Longrightarrow> length pcs = length reqs"
  by (auto simp: invariant_def dest: list_all2_lengthD)

lemma strip_Volga:
  "strip ''https://en.wikipedia.org/wiki/Volga'' = ''https://en.wikipedia.org/wiki/Volga''"
  by code_simp

lemma example_race_3:
  assumes v: "QuizOutput_model_validate (JObj d) = Some q"
  shows "(step [(example_world 200 d, example_url), (example_world 200 d, example_url @ '' ''),
                (example_world 200 d, ''https://en.wikipedia.org/wiki/Volga'')])\<^sup>*\<^sup>*
     (empty_database, [Start, Start, Start])
     (\<lparr>rows = [example_row (fill_in example_url ''Nile'' d)], next_id = 2\<rparr>,
      [Done (Inr (AList.update ''cached'' (JBool False)
                    (AList.update ''id'' (JNum 1) (fill_in example_url ''Nile'' d)))),
       Done (Inr (cached_data (example_row (fill_in example_url ''Nile'' d)))),
       Start])"
proof -
  let ?w = "example_world 200 d"
  let ?reqs = "[(?w, example_url), (?w, example_url @ '' ''),
                (?w, ''https://en.wikipedia.org/wiki/Volga'')]"
  let ?r = "fill_in example_url ''Nile'' d"
  let ?db = "\<lparr>rows = [example_row ?r], next_id = 2\<rparr>"
  let ?fresh = "Done (Inr (AList.update ''cached'' (JBool False) (AList.update ''id'' (JNum 1) ?r)))"
  note p = prepare_example [OF v, of 200 example_url, simplified]
  have 1: "step ?reqs (empty_database, [Start, Start, Start])
      (empty_database, [Missed, Start, Start])"
    by (rule step_at [of 0])
      (simp_all add: strip_example_url valid_example_url check_cache_empty)
  have 2: "step ?reqs (empty_database, [Missed, Start, Start])
      (empty_database, [Missed, Missed, Start])"
    by (rule step_at [of 1])
      (simp_all add: strip_example_url valid_example_url check_cache_empty)
  have 3: "step ?reqs (empty_database, [Missed, Missed, Start]) (?db, [?fresh, Missed, Start])"
    by (rule step_at [of 0]) (simp_all add: strip_example_url p store_example)
  have 4: "step ?reqs (?db, [?fresh, Missed, Start]) (?db, [?fresh, Conflict, Start])"
    by (rule step_at [of 1]) (simp_all add: strip_example_url p store_example_conflict)
  have 5: "step ?reqs (?db, [?fresh, Conflict, Start])
      (?db, [?fresh, Done (Inr (cached_data (example_row ?r))), Start])"
    by (rule step_at [of 1]) (simp_all add: strip_example_url recover_example)
  from 1 have "(step ?reqs)\<^sup>*\<^sup>* (empty_database, [Start, Start, Start])
      (empty_database, [Missed, Start, Start])"
    by (rule r_into_rtranclp)
  from this 2 have "(step ?reqs)\<^sup>*\<^sup>* (empty_database, [Start, Start, Start])
      (empty_database, [Missed, Missed, Start])"
    by (rule rtranclp.rtrancl_into_rtrancl)
  from this 3 have "(step ?reqs)\<^sup>*\<^sup>* (empty_database, [Start, Start, Start])
      (?db, [?fresh, Missed, Start])"
    by (rule rtranclp.rtrancl_into_rtrancl)
  from this 4 have "(step ?reqs)\<^sup>*\<^sup>* (empty_database, [Start, Start, Start])
      (?db, [?fresh, Conflict, Start])"
    by (rule rtranclp.rtrancl_into_rtrancl)
  from this 5 show ?thesis
    by (rule rtranclp.rtrancl_into_rtrancl)
qed

section \<open>The claims about the schema\<close>

text \<open>
  C1, as amended. Every item of a \<^verbatim>\<open>QuizOutput\<close> that the schema accepts has exactly
  four options and a difficulty that is one of the lowercase strings easy, medium and
  hard; and every dict \<^verbatim>\<open>generate_quiz\<close> returns is accepted by the schema. The
  schema puts no bound on the number of items.
\<close>

theorem schema_shape:
  "(QuizOutput_model_validate j = Some q \<longrightarrow>
      list_all (\<lambda>i. length (options i) = 4 \<and> difficulty i \<in> {''easy'', ''medium'', ''hard''})
        (quiz q)) \<and>
   (generate_quiz b u t a = Inr d \<longrightarrow> (\<exists>q. QuizOutput_model_validate (JObj d) = Some q))"
proof (intro conjI impI)
  assume "QuizOutput_model_validate j = Some q"
  then show "list_all (\<lambda>i. length (options i) = 4 \<and> difficulty i \<in> {''easy'', ''medium'', ''hard''})
        (quiz q)" by (rule QuizOutput_shape)
next
  assume "generate_quiz b u t a = Inr d"
  then obtain m p r where "try_once b m p = Inr r" and d: "d = fill_in u t r"
    by (auto simp: generate_quiz_def Let_def split: sum.splits)
  then obtain q where "QuizOutput_model_validate (JObj r) = Some q"
    by (auto simp: try_once_Inr_iff)
  then show "\<exists>q. QuizOutput_model_validate (JObj d) = Some q"
    unfolding d using fill_in_valid by blast
qed

theorem schema_shape_witness:
  "QuizOutput_model_validate (JObj (example_doc ''Rivers'' (JObj []) [example_item ''Nile'' ''easy''])) \<noteq> None \<and>
   list_all (\<lambda>i. length (options i) = 4 \<and> difficulty i \<in> {''easy'', ''medium'', ''hard''})
     (quiz (the (QuizOutput_model_validate
        (JObj (example_doc ''Rivers'' (JObj []) [example_item ''Nile'' ''easy'']))))) \<and>
   generate_quiz
     (example_backend (\<lambda>p. Inr ''{}'')
        (\<lambda>s. Some (JObj (example_doc ''Rivers'' (JObj []) [example_item ''Nile'' ''easy'']))))
     ''https://en.wikipedia.org/wiki/River'' ''River'' ''A river flows.'' =
     Inr (fill_in ''https://en.wikipedia.org/wiki/River'' ''River''
            (example_doc ''Rivers'' (JObj []) [example_item ''Nile'' ''easy''])) \<and>
   (\<exists>q. QuizOutput_model_validate
          (JObj (fill_in ''https://en.wikipedia.org/wiki/River'' ''River''
             (example_doc ''Rivers'' (JObj []) [example_item ''Nile'' ''easy'']))) = Some q)"
proof -
  let ?d = "example_doc ''Rivers'' (JObj []) [example_item ''Nile'' ''easy'']"
  let ?b = "example_backend (\<lambda>p. Inr ''{}'') (\<lambda>s. Some (JObj ?d))"
  obtain q where v: "QuizOutput_model_validate (JObj ?d) = Some q"
    using valid_example_doc_1 by blast
  have g: "generate_quiz ?b ''https://en.wikipedia.org/wiki/River'' ''River'' ''A river flows.'' =
      Inr (fill_in ''https://en.wikipedia.org/wiki/River'' ''River'' ?d)"
    by (rule generate_quiz_first [OF pick_example try_once_example [OF v]])
  show ?thesis
    using v g
      schema_shape [of "JObj ?d" q ?b "''https://en.wikipedia.org/wiki/River''" "''River''"
        "''A river flows.''" "fill_in ''https://en.wikipedia.org/wiki/River'' ''River'' ?d"]
    by simp
qed

text \<open>
  C1 as stated fails: the schema accepts a document with no question at all, and
  \<^verbatim>\<open>generate_quiz\<close> returns it.
\<close>

theorem quiz_length_counterexample:
  "map_option (\<lambda>q. length (quiz q))
     (QuizOutput_model_validate (JObj (example_doc ''Rivers'' (JObj []) []))) = Some 0 \<and>
   generate_quiz
     (example_backend (\<lambda>p. Inr ''{}'') (\<lambda>s. Some (JObj (example_doc ''Rivers'' (JObj []) []))))
     ''https://en.wikipedia.org/wiki/River'' ''River'' ''A river flows.'' =
     Inr (fill_in ''https://en.wikipedia.org/wiki/River'' ''River''
            (example_doc ''Rivers'' (JObj []) [])) \<and>
   map_of (fill_in ''https://en.wikipedia.org/wiki/River'' ''River''
            (example_doc ''Rivers'' (JObj []) [])) ''quiz'' = Some (JArr [])"
proof -
  have v: "QuizOutput_model_validate (JObj (example_doc ''Rivers'' (JObj []) [])) =
      Some \<lparr>url = ''https://example.org'', title = ''Rivers'', summary = ''Rivers of the world.'',
           key_entities = \<lparr>people = [], organizations = [], locations = []\<rparr>,
           sections = [''Geography''], quiz = [], related_topics = [''Delta'']\<rparr>"
    by (rule valid_example_doc)
  have "map_of (fill_in ''https://en.wikipedia.org/wiki/River'' ''River''
            (example_doc ''Rivers'' (JObj []) [])) ''quiz'' = Some (JArr [])"
    by (simp add: fill_in_def map_of_update example_doc_def)
  then show ?thesis
    using v generate_quiz_first [OF pick_example try_once_example [OF v]] by simp
qed

text \<open>
  C9. The schema accepts an item whose answer is none of its four options: an item is
  accepted exactly when its five fields are there, the question, the answer and the
  explanation are strings, the options are four strings and the difficulty is one of the
  three labels. Nothing relates the answer to the options.
\<close>

theorem answer_not_checked:
  "(\<exists>j i. QuizItem_model_validate j = Some i \<and> length (options i) = 4 \<and>
           answer i \<notin> set (options i)) \<and>
   (QuizItem_model_validate (JObj d) = Some i \<longleftrightarrow>
      map_of d ''question'' = Some (JStr (question i)) \<and>
      map_of d ''options'' = Some (JArr (map JStr (options i))) \<and> length (options i) = 4 \<and>
      map_of d ''answer'' = Some (JStr (answer i)) \<and>
      map_of d ''difficulty'' = Some (JStr (difficulty i)) \<and>
      difficulty i \<in> {''easy'', ''medium'', ''hard''} \<and>
      map_of d ''explanation'' = Some (JStr (explanation i)))"
proof
  have "QuizItem_model_validate (example_item ''Amazon'' ''easy'') =
     Some \<lparr>question = ''Which river is the longest?'',
           options = [''Nile'', ''Rhine'', ''Volga'', ''Loire''],
           answer = ''Amazon'', difficulty = ''easy'',
           explanation = ''See the section Geography.''\<rparr>"
    by (rule valid_example_item)
  then show "\<exists>j i. QuizItem_model_validate j = Some i \<and> length (options i) = 4 \<and>
           answer i \<notin> set (options i)"
    by (intro exI conjI, assumption) simp_all
next
  show "QuizItem_model_validate (JObj d) = Some i \<longleftrightarrow>
      map_of d ''question'' = Some (JStr (question i)) \<and>
      map_of d ''options'' = Some (JArr (map JStr (options i))) \<and> length (options i) = 4 \<and>
      map_of d ''answer'' = Some (JStr (answer i)) \<and>
      map_of d ''difficulty'' = Some (JStr (difficulty i)) \<and>
      difficulty i \<in> {''easy'', ''medium'', ''hard''} \<and>
      map_of d ''explanation'' = Some (JStr (explanation i))"
    by (cases i) (auto simp: bind_eq_Some_conv required_str required_options required_literal)
qed

text \<open>
  C10. Leave any set \<open>A\<close> of keys out of the \<^verbatim>\<open>key_entities\<close> object of a response
  the schema accepts: the schema still accepts it, and each of the lists people,
  organizations and locations whose key is left out is empty in the validated model.
\<close>

theorem key_entities_default:
  assumes "QuizOutput_model_validate (JObj d) = Some q"
    and "map_of d ''key_entities'' = Some (JObj k)"
  shows "QuizOutput_model_validate
           (JObj (AList.update ''key_entities'' (JObj (AList.restrict (- A) k)) d)) =
         Some (q\<lparr>key_entities :=
           \<lparr>people = (if ''people'' \<in> A then [] else people (key_entities q)),
            organizations =
              (if ''organizations'' \<in> A then [] else organizations (key_entities q)),
            locations = (if ''locations'' \<in> A then [] else locations (key_entities q))\<rparr>\<rparr>)"
proof -
  from assms have "KeyEntities_model_validate (JObj k) = Some (key_entities q)"
    unfolding QuizOutput_valid_iff by (simp add: required_def)
  from KeyEntities_restrict [OF this, of A] assms(1) show ?thesis
    unfolding QuizOutput_valid_iff
    by (simp add: required_def map_of_update)
qed

theorem key_entities_default_witness:
  "QuizOutput_model_validate
     (JObj (example_doc ''Rivers''
        (JObj [(''people'', JArr [JStr ''Hapi'']), (''locations'', JArr [JStr ''Cairo''])]) []))
     \<noteq> None \<and>
   map_of (example_doc ''Rivers''
        (JObj [(''people'', JArr [JStr ''Hapi'']), (''locations'', JArr [JStr ''Cairo''])]) [])
     ''key_entities'' =
     Some (JObj [(''people'', JArr [JStr ''Hapi'']), (''locations'', JArr [JStr ''Cairo''])]) \<and>
   map_option key_entities
     (QuizOutput_model_validate
        (JObj (AList.update ''key_entities''
           (JObj (AList.restrict (- {''people'', ''organizations''})
              [(''people'', JArr [JStr ''Hapi'']), (''locations'', JArr [JStr ''Cairo''])]))
           (example_doc ''Rivers''
              (JObj [(''people'', JArr [JStr ''Hapi'']), (''locations'', JArr [JStr ''Cairo''])])
              [])))) =
     Some \<lparr>people = [], organizations = [], locations = [''Cairo'']\<rparr>"
proof -
  let ?k = "[(''people'', JArr [JStr ''Hapi'']), (''locations'', JArr [JStr ''Cairo''])]"
  let ?d = "example_doc ''Rivers'' (JObj ?k) []"
  have v: "QuizOutput_model_validate (JObj ?d) =
      Some \<lparr>url = ''https://example.org'', title = ''Rivers'',
            summary = ''Rivers of the world.'',
            key_entities = \<lparr>people = [''Hapi''], organizations = [], locations = [''Cairo'']\<rparr>,
            sections = [''Geography''], quiz = [], related_topics = [''Delta'']\<rparr>"
    by (simp add: example_doc_def required_def with_default_def)
  have k: "map_of ?d ''key_entities'' = Some (JObj ?k)"
    by (simp add: example_doc_def)
  show ?thesis
    using v k key_entities_default [OF v k, of "{''people'', ''organizations''}"] by simp
qed

section \<open>The claims about the generator\<close>

text \<open>
  C7. Let the backend answer the prompt of \<^verbatim>\<open>generate_quiz\<close> with a first response
  that is empty once cleaned, or that \<^verbatim>\<open>json.loads\<close> cannot parse, or that parses to
  a document the schema refuses; and let it answer the same prompt with the reminder
  appended with a second response. If the second response, cleaned, parses to a document
  the schema accepts, \<^verbatim>\<open>generate_quiz\<close> returns that document, with the url and the
  title filled in and every other key as the backend gave it. If the second response is
  empty, or does not parse, or parses to a document the schema refuses,
  \<^verbatim>\<open>generate_quiz\<close> fails with the message of the second attempt.
\<close>

theorem retry_on_malformed_output:
  assumes "pick_model b = Inr m"
    and "generate_content b m (PROMPT_TEMPLATE_format u t (take 18000 a)) = Inr first_reply"
    and "clean_json_text first_reply = [] \<or> json_loads b (clean_json_text first_reply) = None \<or>
         (\<exists>data. json_loads b (clean_json_text first_reply) = Some data \<and>
                 QuizOutput_model_validate data = None)"
    and "generate_content b m (PROMPT_TEMPLATE_format u t (take 18000 a) @ REMINDER) = Inr second_reply"
  shows "(clean_json_text second_reply \<noteq> [] \<and> json_loads b (clean_json_text second_reply) = Some data \<and>
          QuizOutput_model_validate data \<noteq> None \<longrightarrow>
            (\<exists>d. data = JObj d \<and> generate_quiz b u t a = Inr (fill_in u t d) \<and>
                 (\<forall>k. k \<noteq> ''url'' \<and> k \<noteq> ''title'' \<longrightarrow> map_of (fill_in u t d) k = map_of d k))) \<and>
         (clean_json_text second_reply = [] \<longrightarrow>
            generate_quiz b u t a = Inl (Model_failed m Empty_model_response)) \<and>
         (clean_json_text second_reply \<noteq> [] \<and> json_loads b (clean_json_text second_reply) = None \<longrightarrow>
            generate_quiz b u t a = Inl (Model_failed m (Raised JSONDecodeError))) \<and>
         (clean_json_text second_reply \<noteq> [] \<and> json_loads b (clean_json_text second_reply) = Some data \<and>
          QuizOutput_model_validate data = None \<longrightarrow>
            generate_quiz b u t a = Inl (Model_failed m (Raised ValidationError)))"
proof -
  have "\<exists>e. try_once b m (PROMPT_TEMPLATE_format u t (take 18000 a)) = Inl e"
  proof (cases "clean_json_text first_reply = []")
    case True
    then show ?thesis by (simp add: try_once_response [OF assms(2)])
  next
    case False
    with assms(3) show ?thesis
      by (auto simp: try_once_response [OF assms(2)])
  qed
  then obtain e where "try_once b m (PROMPT_TEMPLATE_format u t (take 18000 a)) = Inl e" ..
  note g = generate_quiz_second [OF assms(1) this]
  note s = try_once_response [OF assms(4)]
  show ?thesis
  proof (intro conjI impI)
    assume v: "clean_json_text second_reply \<noteq> [] \<and> json_loads b (clean_json_text second_reply) = Some data \<and>
          QuizOutput_model_validate data \<noteq> None"
    then obtain q where "QuizOutput_model_validate data = Some q" by auto
    moreover from this obtain d where "data = JObj d" using valid_is_dict by blast
    ultimately show "\<exists>d. data = JObj d \<and> generate_quiz b u t a = Inr (fill_in u t d) \<and>
                 (\<forall>k. k \<noteq> ''url'' \<and> k \<noteq> ''title'' \<longrightarrow> map_of (fill_in u t d) k = map_of d k)"
      using v g s by (simp add: fill_in_other)
  next
    assume "clean_json_text second_reply = []"
    with g s show "generate_quiz b u t a = Inl (Model_failed m Empty_model_response)" by simp
  next
    assume "clean_json_text second_reply \<noteq> [] \<and> json_loads b (clean_json_text second_reply) = None"
    with g s show "generate_quiz b u t a = Inl (Model_failed m (Raised JSONDecodeError))" by simp
  next
    assume "clean_json_text second_reply \<noteq> [] \<and> json_loads b (clean_json_text second_reply) = Some data \<and>
          QuizOutput_model_validate data = None"
    with g s show "generate_quiz b u t a = Inl (Model_failed m (Raised ValidationError))" by simp
  qed
qed

theorem retry_on_malformed_output_witness:
  "generate_quiz
     (scripted_backend
        (PROMPT_TEMPLATE_format example_url ''Nile'' (take 18000 ''The Nile flows north.''))
        ''{Easy}'' fenced
        [(''{Easy}'', JObj (example_doc ''Rivers'' (JObj []) [example_item ''Nile'' ''Easy''])),
         (''{}'' @ nl, JObj (example_doc ''Rivers'' (JObj []) [example_item ''Nile'' ''easy'']))])
     example_url ''Nile'' ''The Nile flows north.'' =
     Inr (fill_in example_url ''Nile''
            (example_doc ''Rivers'' (JObj []) [example_item ''Nile'' ''easy''])) \<and>
   generate_quiz
     (scripted_backend
        (PROMPT_TEMPLATE_format example_url ''Nile'' (take 18000 ''The Nile flows north.''))
        ''Here is your quiz!'' ''{Easy}''
        [(''{Easy}'', JObj (example_doc ''Rivers'' (JObj []) [example_item ''Nile'' ''Easy''])),
         (''{}'' @ nl, JObj (example_doc ''Rivers'' (JObj []) [example_item ''Nile'' ''easy'']))])
     example_url ''Nile'' ''The Nile flows north.'' =
     Inl (Model_failed ''models/gemini-1.5-flash'' (Raised ValidationError)) \<and>
   generate_quiz
     (scripted_backend
        (PROMPT_TEMPLATE_format example_url ''Nile'' (take 18000 ''The Nile flows north.''))
        ''{Easy}'' ''Here is your quiz!''
        [(''{Easy}'', JObj (example_doc ''Rivers'' (JObj []) [example_item ''Nile'' ''Easy''])),
         (''{}'' @ nl, JObj (example_doc ''Rivers'' (JObj []) [example_item ''Nile'' ''easy'']))])
     example_url ''Nile'' ''The Nile flows north.'' =
     Inl (Model_failed ''models/gemini-1.5-flash'' (Raised JSONDecodeError))"
proof -
  let ?p = "PROMPT_TEMPLATE_format example_url ''Nile'' (take 18000 ''The Nile flows north.'')"
  let ?E = "JObj (example_doc ''Rivers'' (JObj []) [example_item ''Nile'' ''Easy''])"
  let ?e = "JObj (example_doc ''Rivers'' (JObj []) [example_item ''Nile'' ''easy''])"
  let ?ps = "[(''{Easy}'', ?E), (''{}'' @ nl, ?e)]"
  let ?m = "''models/gemini-1.5-flash''"
  have parses: "map_of ?ps ''{Easy}'' = Some ?E" "map_of ?ps (''{}'' @ nl) = Some ?e"
    "map_of ?ps ''Here is your quiz!'' = None"
    by (simp_all add: nl_def)
  have ne: "''{}'' @ nl \<noteq> []" by simp
  have valid: "QuizOutput_model_validate ?e \<noteq> None"
    using valid_example_doc_1 [of "''Rivers''" "''Nile''"] by simp
  have schema_invalid: "clean_json_text ''{Easy}'' = [] \<or>
      json_loads (scripted_backend ?p f s ?ps) (clean_json_text ''{Easy}'') = None \<or>
      (\<exists>data. json_loads (scripted_backend ?p f s ?ps) (clean_json_text ''{Easy}'') = Some data \<and>
              QuizOutput_model_validate data = None)" for f s
    by (simp add: clean_Easy scripted_replies parses invalid_Easy
        del: QuizOutput_model_validate.simps)
  have no_json: "clean_json_text ''Here is your quiz!'' = [] \<or>
      json_loads (scripted_backend ?p f s ?ps) (clean_json_text ''Here is your quiz!'') = None \<or>
      (\<exists>data. json_loads (scripted_backend ?p f s ?ps) (clean_json_text ''Here is your quiz!'') =
                Some data \<and> QuizOutput_model_validate data = None)" for f s
    by (simp add: clean_sentence scripted_replies parses)
  note 1 = retry_on_malformed_output [where b = "scripted_backend ?p ''{Easy}'' fenced ?ps"
      and m = ?m and u = example_url and t = "''Nile''" and a = "''The Nile flows north.''"
      and first_reply = "''{Easy}''" and second_reply = fenced and data = ?e,
      OF pick_scripted scripted_replies(1) schema_invalid scripted_replies(2), THEN conjunct1]
  note 2 = retry_on_malformed_output [where
        b = "scripted_backend ?p ''Here is your quiz!'' ''{Easy}'' ?ps"
      and m = ?m and u = example_url and t = "''Nile''" and a = "''The Nile flows north.''"
      and first_reply = "''Here is your quiz!''" and second_reply = "''{Easy}''" and data = ?E,
      OF pick_scripted scripted_replies(1) no_json scripted_replies(2),
      THEN conjunct2, THEN conjunct2, THEN conjunct2]
  note 3 = retry_on_malformed_output [where
        b = "scripted_backend ?p ''{Easy}'' ''Here is your quiz!'' ?ps"
      and m = ?m and u = example_url and t = "''Nile''" and a = "''The Nile flows north.''"
      and first_reply = "''{Easy}''" and second_reply = "''Here is your quiz!''" and data = ?E,
      OF pick_scripted scripted_replies(1) schema_invalid scripted_replies(2),
      THEN conjunct2, THEN conjunct2, THEN conjunct1]
  from 1 have a: "generate_quiz (scripted_backend ?p ''{Easy}'' fenced ?ps) example_url ''Nile''
      ''The Nile flows north.'' =
      Inr (fill_in example_url ''Nile'' (example_doc ''Rivers'' (JObj []) [example_item ''Nile'' ''easy'']))"
    using valid ne
    by (simp add: clean_fenced scripted_replies parses del: QuizOutput_model_validate.simps)
  from 2 have b: "generate_quiz (scripted_backend ?p ''Here is your quiz!'' ''{Easy}'' ?ps)
      example_url ''Nile'' ''The Nile flows north.'' = Inl (Model_failed ?m (Raised ValidationError))"
    by (simp add: clean_Easy scripted_replies parses invalid_Easy
        del: QuizOutput_model_validate.simps)
  from 3 have c: "generate_quiz (scripted_backend ?p ''{Easy}'' ''Here is your quiz!'' ?ps)
      example_url ''Nile'' ''The Nile flows north.'' = Inl (Model_failed ?m (Raised JSONDecodeError))"
    by (simp add: clean_sentence scripted_replies parses)
  from a b c show ?thesis by (intro conjI)
qed

text \<open>
  C3, as amended. When the second attempt succeeds, the url of the returned output is the
  caller's url, and its title is the backend's own title unless that is empty: only then
  is it the caller's title.
\<close>

theorem second_attempt_url_title:
  assumes "pick_model b = Inr m"
    and "try_once b m (PROMPT_TEMPLATE_format u t (take 18000 a)) = Inl first_diag"
    and "try_once b m (PROMPT_TEMPLATE_format u t (take 18000 a) @ REMINDER) = Inr result"
  shows "\<exists>d own. generate_quiz b u t a = Inr d \<and>
           map_of d ''url'' = Some (JStr u) \<and>
           map_of result ''title'' = Some (JStr own) \<and>
           map_of d ''title'' = Some (JStr (if own = [] then t else own))"
proof -
  from assms(3) obtain q where "QuizOutput_model_validate (JObj result) = Some q"
    by (auto simp: try_once_Inr_iff)
  then have own: "map_of result ''title'' = Some (JStr (title q))"
    unfolding QuizOutput_valid_iff by simp
  have "generate_quiz b u t a = Inr (fill_in u t result)"
    using generate_quiz_second [OF assms(1,2)] assms(3) by simp
  with own show ?thesis
    by (intro exI [of _ "fill_in u t result"] exI [of _ "title q"])
      (simp add: fill_in_url fill_in_title)
qed

theorem second_attempt_url_title_witness:
  "try_once
     (retry_backend (PROMPT_TEMPLATE_format ''https://en.wikipedia.org/wiki/Nile'' []
                       (take 18000 ''The Nile flows north.''))
        (example_doc [] (JObj []) []))
     ''models/gemini-1.5-flash''
     (PROMPT_TEMPLATE_format ''https://en.wikipedia.org/wiki/Nile'' []
        (take 18000 ''The Nile flows north.'') @ REMINDER) =
     Inr (example_doc [] (JObj []) []) \<and>
   (\<exists>d own.
      generate_quiz
        (retry_backend (PROMPT_TEMPLATE_format ''https://en.wikipedia.org/wiki/Nile'' []
                          (take 18000 ''The Nile flows north.''))
           (example_doc [] (JObj []) []))
        ''https://en.wikipedia.org/wiki/Nile'' [] ''The Nile flows north.'' = Inr d \<and>
      map_of d ''url'' = Some (JStr ''https://en.wikipedia.org/wiki/Nile'') \<and>
      map_of (example_doc [] (JObj []) []) ''title'' = Some (JStr own) \<and>
      map_of d ''title'' = Some (JStr (if own = [] then [] else own)))"
proof -
  let ?p = "PROMPT_TEMPLATE_format ''https://en.wikipedia.org/wiki/Nile'' []
              (take 18000 ''The Nile flows north.'')"
  let ?d = "example_doc [] (JObj []) []"
  let ?m = "''models/gemini-1.5-flash''"
  have 1: "try_once (retry_backend ?p ?d) ?m ?p = Inl (Raised JSONDecodeError)"
    by (rule retry_first)
  have 2: "try_once (retry_backend ?p ?d) ?m (?p @ REMINDER) = Inr ?d"
    by (rule retry_second [OF valid_example_doc])
  show ?thesis
    using 2 second_attempt_url_title [OF pick_retry 1 2] by (intro conjI)
qed

text \<open>
  C3 as stated fails: the caller supplies the title Nile, the backend's second response
  has the title The Nile River, and the returned title is the backend's.
\<close>

theorem backend_title_counterexample:
  "try_once
     (retry_backend (PROMPT_TEMPLATE_format ''https://en.wikipedia.org/wiki/Nile'' ''Nile''
                       (take 18000 ''The Nile flows north.''))
        (example_doc ''The Nile River'' (JObj []) []))
     ''models/gemini-1.5-flash''
     (PROMPT_TEMPLATE_format ''https://en.wikipedia.org/wiki/Nile'' ''Nile''
        (take 18000 ''The Nile flows north.'')) = Inl (Raised JSONDecodeError) \<and>
   generate_quiz
     (retry_backend (PROMPT_TEMPLATE_format ''https://en.wikipedia.org/wiki/Nile'' ''Nile''
                       (take 18000 ''The Nile flows north.''))
        (example_doc ''The Nile River'' (JObj []) []))
     ''https://en.wikipedia.org/wiki/Nile'' ''Nile'' ''The Nile flows north.'' =
     Inr (fill_in ''https://en.wikipedia.org/wiki/Nile'' ''Nile''
            (example_doc ''The Nile River'' (JObj []) [])) \<and>
   map_of (fill_in ''https://en.wikipedia.org/wiki/Nile'' ''Nile''
            (example_doc ''The Nile River'' (JObj []) [])) ''title'' =
     Some (JStr ''The Nile River'')"
proof -
  let ?p = "PROMPT_TEMPLATE_format ''https://en.wikipedia.org/wiki/Nile'' ''Nile''
              (take 18000 ''The Nile flows north.'')"
  let ?d = "example_doc ''The Nile River'' (JObj []) []"
  have 1: "try_once (retry_backend ?p ?d) ''models/gemini-1.5-flash'' ?p =
      Inl (Raised JSONDecodeError)"
    by (rule retry_first)
  have 2: "try_once (retry_backend ?p ?d) ''models/gemini-1.5-flash'' (?p @ REMINDER) = Inr ?d"
    by (rule retry_second [OF valid_example_doc])
  have 3: "generate_quiz (retry_backend ?p ?d) ''https://en.wikipedia.org/wiki/Nile'' ''Nile''
      ''The Nile flows north.'' = Inr (fill_in ''https://en.wikipedia.org/wiki/Nile'' ''Nile'' ?d)"
    using generate_quiz_second [OF pick_retry 1] 2 by simp
  have 4: "map_of (fill_in ''https://en.wikipedia.org/wiki/Nile'' ''Nile'' ?d) ''title'' =
      Some (JStr ''The Nile River'')"
    by (simp add: fill_in_def map_of_update example_doc_def)
  from 1 3 4 show ?thesis by (intro conjI)
qed

text \<open>
  C4 at a failing input. A response that is valid but for the label Easy is refused by
  the validation that \<^verbatim>\<open>_try_once\<close> runs before it lowers the labels, although the
  lowered document is one the schema accepts: the attempt fails, and so does
  \<^verbatim>\<open>generate_quiz\<close> when both responses are such.
\<close>

theorem uppercase_difficulty_rejected:
  "QuizOutput_model_validate
     (JObj (example_doc ''Rivers'' (JObj []) [example_item ''Nile'' ''Easy''])) = None \<and>
   lower_difficulties (example_doc ''Rivers'' (JObj []) [example_item ''Nile'' ''Easy'']) =
     Some (example_doc ''Rivers'' (JObj []) [example_item ''Nile'' ''easy'']) \<and>
   QuizOutput_model_validate
     (JObj (example_doc ''Rivers'' (JObj []) [example_item ''Nile'' ''easy''])) \<noteq> None \<and>
   try_once
     (example_backend (\<lambda>p. Inr ''{}'')
        (\<lambda>s. Some (JObj (example_doc ''Rivers'' (JObj []) [example_item ''Nile'' ''Easy'']))))
     m p = Inl (Raised ValidationError) \<and>
   generate_quiz
     (example_backend (\<lambda>p. Inr ''{}'')
        (\<lambda>s. Some (JObj (example_doc ''Rivers'' (JObj []) [example_item ''Nile'' ''Easy'']))))
     u t a = Inl (Model_failed ''models/gemini-1.5-flash'' (Raised ValidationError))"
proof -
  let ?E = "example_doc ''Rivers'' (JObj []) [example_item ''Nile'' ''Easy'']"
  let ?e = "example_doc ''Rivers'' (JObj []) [example_item ''Nile'' ''easy'']"
  let ?b = "example_backend (\<lambda>p. Inr ''{}'') (\<lambda>s. Some (JObj ?E))"
  have 1: "QuizOutput_model_validate (JObj ?E) = None"
    by (simp add: example_doc_def example_item_def required_def with_default_def
        validate_options_def validate_literal_def Difficulty_def)
  have 2: "lower_difficulties ?E = Some ?e"
    by (simp add: lower_difficulties_def example_doc_def example_item_def lower_Easy)
  have 3: "QuizOutput_model_validate (JObj ?e) \<noteq> None"
    using valid_example_doc_1 [of "''Rivers''" "''Nile''"] by simp
  have 4: "try_once ?b m' p' = Inl (Raised ValidationError)" for m' p'
    using 1 by (simp add: try_once_def example_backend_def clean_braces)
  have 5: "generate_quiz ?b u t a = Inl (Model_failed ''models/gemini-1.5-flash'' (Raised ValidationError))"
    using generate_quiz_second [OF pick_example 4] 4 by simp
  from 1 2 3 4 5 show ?thesis by (intro conjI)
qed

section \<open>The claim about the scraper\<close>




section \<open>The claims about the endpoint\<close>

text \<open>
  C8. On a cache miss, with a page fetched, the endpoint answers the error of
  insufficient text exactly when the extracted text has fewer than 200 characters; with
  200 characters or more it calls \<^verbatim>\<open>generate_quiz\<close> on the text and goes on with its
  result.
\<close>

theorem minimum_content_gate:
  assumes "valid_url (strip body_url)"
    and "check_cache db (strip body_url) = None"
    and "snd (scrape_wikipedia (web w) [] (strip body_url)) = Inr (t, content, html)"
  shows "(snd (generate_quiz_endpoint w db body_url) = Inl Insufficient_text
            \<longleftrightarrow> length content < 200) \<and>
         (200 \<le> length content \<longrightarrow>
            generate_quiz_endpoint w db body_url =
              (case generate_quiz (llm w) (strip body_url) t content of
                 Inl e \<Rightarrow> (db, Inl (LLM_generation_failed e))
               | Inr result \<Rightarrow>
                   (case store w db (strip body_url) (t, content, html, result) of
                      Inr (db', result_with_id) \<Rightarrow> (db', Inr result_with_id)
                    | Inl e \<Rightarrow> (db, recover db (strip body_url)))))"
proof (cases "length content < 200")
  case True
  with assms show ?thesis
    by (simp add: generate_quiz_endpoint_def prepare_def)
next
  case False
  then have ne: "content \<noteq> []" by auto
  have fresh: "strip body_url \<notin> set (map Quiz_url (rows db))"
    using assms(2) by (simp add: check_cache_None strip_strip)
  show ?thesis
  proof (cases "generate_quiz (llm w) (strip body_url) t content")
    case (Inl e)
    with False ne assms show ?thesis
      by (simp add: generate_quiz_endpoint_def prepare_def)
  next
    case (Inr result)
    from store_Inr [OF fresh] obtain db' r
      where "store w db (strip body_url) (t, content, html, result) = Inr (db', r)" by blast
    with Inr False ne assms show ?thesis
      by (simp add: generate_quiz_endpoint_def prepare_def)
  qed
qed

theorem minimum_content_gate_witness:
  "valid_url (strip example_url) \<and>
   check_cache empty_database (strip example_url) = None \<and>
   snd (scrape_wikipedia (web (example_world 199 (example_doc ''Rivers'' (JObj []) []))) []
          (strip example_url)) =
     Inr (''Nile'', replicate 199 (CHR ''a''), replicate 199 (CHR ''a'')) \<and>
   snd (generate_quiz_endpoint (example_world 199 (example_doc ''Rivers'' (JObj []) []))
          empty_database example_url) = Inl Insufficient_text \<and>
   snd (scrape_wikipedia (web (example_world 200 (example_doc ''Rivers'' (JObj []) []))) []
          (strip example_url)) =
     Inr (''Nile'', replicate 200 (CHR ''a''), replicate 200 (CHR ''a'')) \<and>
   snd (generate_quiz_endpoint (example_world 200 (example_doc ''Rivers'' (JObj []) []))
          empty_database example_url) \<noteq> Inl Insufficient_text"
proof -
  let ?d = "example_doc ''Rivers'' (JObj []) []"
  have v: "valid_url (strip example_url)"
    by (simp add: strip_example_url valid_example_url)
  have c: "check_cache empty_database (strip example_url) = None"
    by (rule check_cache_empty)
  note s199 = scrape_example [of 199 ?d "strip example_url"]
  note s200 = scrape_example [of 200 ?d "strip example_url"]
  show ?thesis
    using v c s199 s200
      minimum_content_gate [OF v c s199, THEN conjunct1]
      minimum_content_gate [OF v c s200, THEN conjunct1]
    by simp
qed

text \<open>
  C6. When the commit of a request fails with the \<^verbatim>\<open>IntegrityError\<close> of the unique
  url, then in every later database (no row is ever deleted) the handler finds a row
  with the url and the request answers what \<^verbatim>\<open>check_cache\<close> makes of that row: the
  quiz the row stores, with the id and the date of the row and marked as cached. Where no
  two rows have the same url, that row was in the table when the commit failed. The
  synthesized result is dropped and no error reaches the caller.
\<close>

theorem duplicate_key_recovered:
  assumes "request_step w body_url db Missed = (db1, Conflict)"
    and "set (rows db) \<subseteq> set (rows db')"
  shows "\<exists>r \<in> set (rows db'). Quiz_url r = strip body_url \<and>
           request_step w body_url db' Conflict = (db', Done (Inr (cached_data r))) \<and>
           map_of (cached_data r) ''cached'' = Some (JBool True) \<and>
           map_of (cached_data r) ''id'' = Some (JNum (int (Quiz_id r))) \<and>
           map_of (cached_data r) ''date_generated'' =
             Some (JStr (isoformat (date_generated r))) \<and>
           answers_for (cached_data r) r \<and>
           (distinct (map Quiz_url (rows db')) \<longrightarrow> r \<in> set (rows db))"
proof -
  from assms(1) obtain p where "store w db (strip body_url) p = Inl IntegrityError"
    by (auto simp: Let_def split: sum.splits db_error.splits)
  then have "strip body_url \<in> set (map Quiz_url (rows db))" by (simp add: store_Inl)
  then obtain r0 where r0: "r0 \<in> set (rows db)" "Quiz_url r0 = strip body_url" by auto
  with assms(2) have "r0 \<in> set (rows db')" by auto
  with r0 have "strip (strip body_url) \<in> set (map Quiz_url (rows db'))"
    by (force simp: strip_strip)
  from check_cache_found [OF this] obtain r where
    r: "r \<in> set (rows db')" "Quiz_url r = strip body_url"
      "check_cache db' (strip body_url) = Some (cached_data r)"
    by (auto simp: strip_strip)
  have "r \<in> set (rows db)" if "distinct (map Quiz_url (rows db'))"
  proof -
    from that have "inj_on Quiz_url (set (rows db'))" by (simp add: distinct_map)
    moreover from r0 assms(2) have "r0 \<in> set (rows db')" by auto
    ultimately have "r = r0" using r(1,2) r0(2) by (simp add: inj_on_def)
    with r0 show ?thesis by simp
  qed
  moreover have "map_of (cached_data r) ''date_generated'' =
      Some (JStr (isoformat (date_generated r)))"
    by (simp add: cached_data_def map_of_update Let_def)
  ultimately show ?thesis
    using r by (intro bexI [of _ r])
      (simp_all add: recover_def cached_data_cached cached_data_id answers_for_cached)
qed

theorem duplicate_key_recovered_witness:
  "request_step (example_world 200 (example_doc ''Rivers'' (JObj []) [])) example_url
     \<lparr>rows = [example_row (example_doc ''The Nile'' (JObj []) [])], next_id = 2\<rparr> Missed =
     (\<lparr>rows = [example_row (example_doc ''The Nile'' (JObj []) [])], next_id = 2\<rparr>, Conflict) \<and>
   (\<exists>r \<in> set [example_row (example_doc ''The Nile'' (JObj []) [])].
      Quiz_url r = strip example_url \<and>
      request_step (example_world 200 (example_doc ''Rivers'' (JObj []) [])) example_url
        \<lparr>rows = [example_row (example_doc ''The Nile'' (JObj []) [])], next_id = 2\<rparr> Conflict =
        (\<lparr>rows = [example_row (example_doc ''The Nile'' (JObj []) [])], next_id = 2\<rparr>,
         Done (Inr (cached_data r))) \<and>
      map_of (cached_data r) ''cached'' = Some (JBool True) \<and>
      map_of (cached_data r) ''id'' = Some (JNum 1) \<and>
      map_of (cached_data r) ''title'' = Some (JStr ''The Nile'') \<and>
      answers_for (cached_data r) r)"
proof -
  let ?w = "example_world 200 (example_doc ''Rivers'' (JObj []) [])"
  let ?row = "example_row (example_doc ''The Nile'' (JObj []) [])"
  let ?db = "\<lparr>rows = [?row], next_id = 2\<rparr>"
  have 1: "request_step ?w example_url ?db Missed = (?db, Conflict)"
    by (simp add: strip_example_url prepare_example [OF valid_example_doc] store_example_conflict)
  have 2: "set (rows ?db) \<subseteq> set (rows ?db)" by simp
  have 3: "map_of (cached_data ?row) ''title'' = Some (JStr ''The Nile'')"
    by (simp add: cached_data_def map_of_update Let_def example_row_def example_doc_def)
  have 4: "Quiz_id ?row = 1" by (simp add: example_row_def)
  show ?thesis
    using 1 3 4 duplicate_key_recovered [OF 1 2] by simp
qed

text \<open>
  C2. Start any requests, for any urls, on a database in which no two rows have the same
  url, and let their steps interleave in any order. In every state reached no two rows
  have the same url. Every run is finite; a state reached has a next step exactly when
  some request has not answered yet, so a run stops only when every request has
  answered, and from every state reached such a state is reached. For a url \<open>u\<close>
  that is valid and new: once the requests for \<open>u\<close> (there is one at least, each
  fetches and synthesizes successfully) have answered, the table has exactly one row for
  \<open>u\<close>, created by these requests, and each of them answered a dict that answers for
  that row.
\<close>

theorem one_record_per_url:
  assumes "distinct (map Quiz_url (rows db0))"
    and "(step reqs)\<^sup>*\<^sup>* (db0, replicate (length reqs) Start) (db, pcs)"
  shows "distinct (map Quiz_url (rows db)) \<and>
         wfP (\<lambda>s' s. step reqs s s') \<and>
         ((\<exists>s'. step reqs (db, pcs) s') \<longleftrightarrow> \<not> list_all is_Done pcs) \<and>
         (\<exists>db' pcs'. (step reqs)\<^sup>*\<^sup>* (db, pcs) (db', pcs') \<and> list_all is_Done pcs') \<and>
         (valid_url u \<and> u \<notin> set (map Quiz_url (rows db0)) \<and>
          (\<exists>i<length reqs. strip (snd (reqs ! i)) = u) \<and>
          (\<forall>i<length reqs. strip (snd (reqs ! i)) = u \<longrightarrow>
             (\<exists>p. prepare (fst (reqs ! i)) u = Inr p) \<and> is_Done (pcs ! i)) \<longrightarrow>
          (\<exists>r. filter (\<lambda>r. Quiz_url r = u) (rows db) = [r] \<and> r \<notin> set (rows db0) \<and>
               (\<forall>i<length reqs. strip (snd (reqs ! i)) = u \<longrightarrow>
                  (\<exists>d. pcs ! i = Done (Inr d) \<and> answers_for d r))))"
proof (intro conjI impI)
  have I: "invariant reqs (db, pcs)"
    by (rule reachable_inv [OF assms(2) inv_initial [OF assms(1)]])
  then show d: "distinct (map Quiz_url (rows db))" by (simp add: invariant_def)
  from I have len: "length pcs = length reqs" by (rule invariant_length)
  show "wfP (\<lambda>s' s. step reqs s s')" by (rule step_wf)
  show "(\<exists>s'. step reqs (db, pcs) s') \<longleftrightarrow> \<not> list_all is_Done pcs"
    by (rule step_exists_iff [OF len])
  from all_answer [of "(db, pcs)" reqs] len
  show "\<exists>db' pcs'. (step reqs)\<^sup>*\<^sup>* (db, pcs) (db', pcs') \<and> list_all is_Done pcs'"
    by auto
  assume race: "valid_url u \<and> u \<notin> set (map Quiz_url (rows db0)) \<and>
          (\<exists>i<length reqs. strip (snd (reqs ! i)) = u) \<and>
          (\<forall>i<length reqs. strip (snd (reqs ! i)) = u \<longrightarrow>
             (\<exists>p. prepare (fst (reqs ! i)) u = Inr p) \<and> is_Done (pcs ! i))"
  from I have all: "list_all2 (request_ok db) reqs pcs" by (simp add: invariant_def)
  have each: "\<exists>d r. pcs ! i = Done (Inr d) \<and> r \<in> set (rows db) \<and> Quiz_url r = u \<and>
      answers_for d r" if "i < length reqs" "strip (snd (reqs ! i)) = u" for i
  proof -
    obtain w body where rq: "reqs ! i = (w, body)" by (cases "reqs ! i") auto
    with that have b: "strip body = u" by simp
    from race that rq obtain p where p: "prepare w (strip body) = Inr p"
      and dn: "is_Done (pcs ! i)" by (auto simp: b)
    from all that(1) have "request_ok db (reqs ! i) (pcs ! i)"
      by (simp add: list_all2_nthD)
    then have ok: "request_ok db (w, body) (pcs ! i)" by (simp add: rq)
    from race b have "valid_url (strip body)" by simp
    from done_row [OF ok dn this p] b show ?thesis by blast
  qed
  from race obtain i0 where "i0 < length reqs" "strip (snd (reqs ! i0)) = u" by blast
  from each [OF this] obtain d0 r where r: "r \<in> set (rows db)" "Quiz_url r = u" by blast
  from filter_distinct_single [OF d r(1)] r(2)
  have one: "filter (\<lambda>r. Quiz_url r = u) (rows db) = [r]" by simp
  have "\<exists>d. pcs ! i = Done (Inr d) \<and> answers_for d r"
    if "i < length reqs" "strip (snd (reqs ! i)) = u" for i
  proof -
    from each [OF that] obtain d r' where
      d: "pcs ! i = Done (Inr d)" "r' \<in> set (rows db)" "Quiz_url r' = u" "answers_for d r'"
      by blast
    then have "r' \<in> set (filter (\<lambda>r. Quiz_url r = u) (rows db))" by simp
    with one have "r' = r" by simp
    with d show ?thesis by simp
  qed
  moreover from race r have "r \<notin> set (rows db0)" by auto
  ultimately show "\<exists>r. filter (\<lambda>r. Quiz_url r = u) (rows db) = [r] \<and> r \<notin> set (rows db0) \<and>
               (\<forall>i<length reqs. strip (snd (reqs ! i)) = u \<longrightarrow>
                  (\<exists>d. pcs ! i = Done (Inr d) \<and> answers_for d r))"
    using one by blast
qed

theorem one_record_per_url_witness:
  "distinct (map Quiz_url (rows empty_database)) \<and>
   (step [(example_world 200 (example_doc ''Rivers'' (JObj []) []), example_url),
          (example_world 200 (example_doc ''Rivers'' (JObj []) []), example_url @ '' ''),
          (example_world 200 (example_doc ''Rivers'' (JObj []) []),
           ''https://en.wikipedia.org/wiki/Volga'')])\<^sup>*\<^sup>*
     (empty_database, [Start, Start, Start])
     (\<lparr>rows = [example_row (fill_in example_url ''Nile'' (example_doc ''Rivers'' (JObj []) []))],
       next_id = 2\<rparr>,
      [Done (Inr (AList.update ''cached'' (JBool False)
                    (AList.update ''id'' (JNum 1)
                       (fill_in example_url ''Nile'' (example_doc ''Rivers'' (JObj []) []))))),
       Done (Inr (cached_data
                    (example_row
                       (fill_in example_url ''Nile'' (example_doc ''Rivers'' (JObj []) []))))),
       Start]) \<and>
   distinct (map Quiz_url
     [example_row (fill_in example_url ''Nile'' (example_doc ''Rivers'' (JObj []) []))]) \<and>
   wfP (\<lambda>s' s.
     step [(example_world 200 (example_doc ''Rivers'' (JObj []) []), example_url),
           (example_world 200 (example_doc ''Rivers'' (JObj []) []), example_url @ '' ''),
           (example_world 200 (example_doc ''Rivers'' (JObj []) []),
            ''https://en.wikipedia.org/wiki/Volga'')] s s') \<and>
   (\<exists>s'.
     step [(example_world 200 (example_doc ''Rivers'' (JObj []) []), example_url),
           (example_world 200 (example_doc ''Rivers'' (JObj []) []), example_url @ '' ''),
           (example_world 200 (example_doc ''Rivers'' (JObj []) []),
            ''https://en.wikipedia.org/wiki/Volga'')]
       (\<lparr>rows = [example_row (fill_in example_url ''Nile'' (example_doc ''Rivers'' (JObj []) []))],
         next_id = 2\<rparr>,
        [Done (Inr (AList.update ''cached'' (JBool False)
                      (AList.update ''id'' (JNum 1)
                         (fill_in example_url ''Nile'' (example_doc ''Rivers'' (JObj []) []))))),
         Done (Inr (cached_data
                      (example_row
                         (fill_in example_url ''Nile'' (example_doc ''Rivers'' (JObj []) []))))),
         Start]) s') \<and>
   (\<exists>db' pcs'.
     (step [(example_world 200 (example_doc ''Rivers'' (JObj []) []), example_url),
            (example_world 200 (example_doc ''Rivers'' (JObj []) []), example_url @ '' ''),
            (example_world 200 (example_doc ''Rivers'' (JObj []) []),
             ''https://en.wikipedia.org/wiki/Volga'')])\<^sup>*\<^sup>*
       (\<lparr>rows = [example_row (fill_in example_url ''Nile'' (example_doc ''Rivers'' (JObj []) []))],
         next_id = 2\<rparr>,
        [Done (Inr (AList.update ''cached'' (JBool False)
                      (AList.update ''id'' (JNum 1)
                         (fill_in example_url ''Nile'' (example_doc ''Rivers'' (JObj []) []))))),
         Done (Inr (cached_data
                      (example_row
                         (fill_in example_url ''Nile'' (example_doc ''Rivers'' (JObj []) []))))),
         Start])
       (db', pcs') \<and>
     list_all is_Done pcs') \<and>
   (\<exists>r. filter (\<lambda>r. Quiz_url r = example_url)
          [example_row (fill_in example_url ''Nile'' (example_doc ''Rivers'' (JObj []) []))] = [r] \<and>
        r \<notin> set (rows empty_database) \<and>
        answers_for
          (AList.update ''cached'' (JBool False)
             (AList.update ''id'' (JNum 1)
                (fill_in example_url ''Nile'' (example_doc ''Rivers'' (JObj []) [])))) r \<and>
        answers_for
          (cached_data
             (example_row (fill_in example_url ''Nile'' (example_doc ''Rivers'' (JObj []) []))))
          r)"
proof -
  let ?d = "example_doc ''Rivers'' (JObj []) []"
  let ?w = "example_world 200 ?d"
  let ?reqs = "[(?w, example_url), (?w, example_url @ '' ''),
                (?w, ''https://en.wikipedia.org/wiki/Volga'')]"
  let ?r = "fill_in example_url ''Nile'' ?d"
  let ?fresh = "AList.update ''cached'' (JBool False) (AList.update ''id'' (JNum 1) ?r)"
  let ?db = "\<lparr>rows = [example_row ?r], next_id = 2\<rparr>"
  let ?pcs = "[Done (Inr ?fresh), Done (Inr (cached_data (example_row ?r))), Start]"
  have d0: "distinct (map Quiz_url (rows empty_database))"
    by (simp add: empty_database_def)
  note reach = example_race_3 [OF valid_example_doc, of "''Rivers''"]
  have reach': "(step ?reqs)\<^sup>*\<^sup>* (empty_database, replicate (length ?reqs) Start) (?db, ?pcs)"
    using reach by (simp add: numeral_3_eq_3)
  have other: "''https://en.wikipedia.org/wiki/Volga'' \<noteq> example_url"
    by (simp add: example_url_def)
  have three: "i < length ?reqs \<longleftrightarrow> i = 0 \<or> i = 1 \<or> i = 2" for i
    by auto
  have h1: "valid_url example_url" by (rule valid_example_url)
  have h2: "example_url \<notin> set (map Quiz_url (rows empty_database))"
    by (simp add: empty_database_def)
  have h3: "\<exists>i<length ?reqs. strip (snd (?reqs ! i)) = example_url"
    by (intro exI [of _ 0]) (simp add: strip_example_url)
  have p: "\<exists>p. prepare ?w example_url = Inr p"
    using prepare_example [OF valid_example_doc, of 200 "''Rivers''" example_url] by simp
  have h4: "\<forall>i<length ?reqs. strip (snd (?reqs ! i)) = example_url \<longrightarrow>
      (\<exists>p. prepare (fst (?reqs ! i)) example_url = Inr p) \<and> is_Done (?pcs ! i)"
    unfolding three using p other by (auto simp: strip_Volga)
  note inst = one_record_per_url [OF d0 reach', of example_url]
  from inst have c1: "distinct (map Quiz_url (rows ?db))" by blast
  from inst have c2: "wfP (\<lambda>s' s. step ?reqs s s')" by blast
  from inst have "(\<exists>s'. step ?reqs (?db, ?pcs) s') \<longleftrightarrow> \<not> list_all is_Done ?pcs" by blast
  then have c3: "\<exists>s'. step ?reqs (?db, ?pcs) s'" by simp
  from inst h1 h2 h3 h4 obtain r where
    r: "filter (\<lambda>r. Quiz_url r = example_url) (rows ?db) = [r]" "r \<notin> set (rows empty_database)"
      "\<forall>i<length ?reqs. strip (snd (?reqs ! i)) = example_url \<longrightarrow>
         (\<exists>d. ?pcs ! i = Done (Inr d) \<and> answers_for d r)"
    by blast
  from r(3) have "\<exists>d. ?pcs ! 0 = Done (Inr d) \<and> answers_for d r"
    by (auto simp: strip_example_url)
  then have a0: "answers_for ?fresh r" by simp
  from r(3) have "strip (snd (?reqs ! 1)) = example_url \<longrightarrow>
      (\<exists>d. ?pcs ! 1 = Done (Inr d) \<and> answers_for d r)"
    by auto
  then have a1: "answers_for (cached_data (example_row ?r)) r"
    by (simp add: strip_example_url)
  from inst have c5: "\<exists>db' pcs'. (step ?reqs)\<^sup>*\<^sup>* (?db, ?pcs) (db', pcs') \<and>
      list_all is_Done pcs'"
    by blast
  from r(1,2) a0 a1 have c4: "\<exists>r. filter (\<lambda>r. Quiz_url r = example_url) [example_row ?r] = [r] \<and>
      r \<notin> set (rows empty_database) \<and> answers_for ?fresh r \<and>
      answers_for (cached_data (example_row ?r)) r"
    by auto
  from d0 reach c1 c2 c3 c4 c5 show ?thesis by simp
qed

end
